theory Spec2Isabelle
  imports Complex_Main "HOL-Library.Word"
begin

section \<open>Shared conventions\<close>

text \<open>
  The development embeds parts of the freud analysis library: the compute lifecycle
  guard of \<^verbatim>\<open>freud/common.pyx\<close>, the constructor of the Debye structure factor,
  the link-cell iterator of \<^verbatim>\<open>cpp/locality/LinkCell.h\<close> and the reciprocal space
  toolkit of \<^verbatim>\<open>freud/kspace.pyx\<close>.

  A Python method is a function from the object's state to the state it leaves behind
  and an outcome: an exception (\<open>Inl\<close>) or a return value (\<open>Inr\<close>). The state is
  returned in both cases, because an assignment made before a \<^verbatim>\<open>raise\<close> stays.
\<close>

datatype py_exception =
    AttributeError string
  | ValueError string
  | KeyError string
  | ZeroDivisionError string
  | OverflowError string
  | StopIteration

type_synonym ('s, 'r) py_method = "'s \<Rightarrow> 's \<times> (py_exception + 'r)"

section \<open>common.pyx: the Compute lifecycle guard\<close>

text \<open>
  \<^verbatim>\<open>cdef class Compute\<close> holds the flag \<^verbatim>\<open>_called_compute\<close>; a subclass adds its own
  attributes, which are the record's extension.
\<close>

record Compute =
  called_compute :: bool

text \<open>\<^verbatim>\<open>__cinit__\<close>: \<^verbatim>\<open>self._called_compute = False\<close>.\<close>

definition Compute_cinit :: "'a \<Rightarrow> 'a Compute_scheme" where
  "Compute_cinit rest = \<lparr>called_compute = False, \<dots> = rest\<rparr>"

text \<open>
  \<^verbatim>\<open>Compute._compute(func)\<close>: the wrapper runs \<^verbatim>\<open>func\<close>, then sets the flag and
  returns what \<^verbatim>\<open>func\<close> returned. When \<^verbatim>\<open>func\<close> raises, the assignment is not
  reached.
\<close>

definition Compute_compute ::
  "('a Compute_scheme, 'r) py_method \<Rightarrow> ('a Compute_scheme, 'r) py_method" where
  "Compute_compute func self =
     (case func self of
        (self', Inl e) \<Rightarrow> (self', Inl e)
      | (self', Inr retval) \<Rightarrow> (self'\<lparr>called_compute := True\<rparr>, Inr retval))"

definition not_computed_msg :: string where
  "not_computed_msg = ''Property not computed. Call compute first.''"

text \<open>\<^verbatim>\<open>Compute._computed_property(prop)\<close>: the guarded property.\<close>

definition Compute_computed_property ::
  "('a Compute_scheme, 'r) py_method \<Rightarrow> ('a Compute_scheme, 'r) py_method" where
  "Compute_computed_property prop self =
     (if \<not> called_compute self
      then (self, Inl (AttributeError not_computed_msg))
      else prop self)"

text \<open>\<^verbatim>\<open>Compute._computed_method(meth)\<close>: the same guard on a method.\<close>

definition Compute_computed_method ::
  "('a Compute_scheme, 'r) py_method \<Rightarrow> ('a Compute_scheme, 'r) py_method" where
  "Compute_computed_method meth self =
     (if \<not> called_compute self
      then (self, Inl (AttributeError not_computed_msg))
      else meth self)"

text \<open>
  \<^verbatim>\<open>Compute._reset(func)\<close>: the wrapper clears the flag first, then runs \<^verbatim>\<open>func\<close>;
  it has no \<^verbatim>\<open>return\<close>, so a call that does not raise yields \<^verbatim>\<open>None\<close>.
\<close>

definition Compute_reset ::
  "('a Compute_scheme, 'r) py_method \<Rightarrow> ('a Compute_scheme, unit) py_method" where
  "Compute_reset func self =
     (case func (self\<lparr>called_compute := False\<rparr>) of
        (self', Inl e) \<Rightarrow> (self', Inl e)
      | (self', Inr _) \<Rightarrow> (self', Inr ()))"

text \<open>
  A method body that leaves \<^verbatim>\<open>_called_compute\<close> alone: the flag it returns is the
  flag it was given.
\<close>

definition keeps_flag :: "('a Compute_scheme, 'r) py_method \<Rightarrow> bool" where
  "keeps_flag func = (\<forall>self. called_compute (fst (func self)) = called_compute self)"

section \<open>Single-precision values\<close>

text \<open>
  A C++ \<^verbatim>\<open>float\<close> is its IEEE 754 binary32 bit pattern: bit 31 is the sign, bits 30 to 23
  the biased exponent, bits 22 to 0 the fraction. The value a pattern denotes is a real
  number, an infinity or NaN; the comparison operators of the language work on these
  values, and a comparison with NaN is false.
\<close>

type_synonym float32 = "32 word"

datatype fvalue = NaN | NegInf | Finite real | PosInf

definition f_sign :: "float32 \<Rightarrow> bool" where
  "f_sign x = (2 ^ 31 \<le> unat x)"

definition f_bits :: "float32 \<Rightarrow> nat" where
  "f_bits x = unat x mod 2 ^ 31"

definition f_exponent :: "float32 \<Rightarrow> nat" where
  "f_exponent x = f_bits x div 2 ^ 23"

definition f_fraction :: "float32 \<Rightarrow> nat" where
  "f_fraction x = f_bits x mod 2 ^ 23"

definition f_isnan :: "float32 \<Rightarrow> bool" where
  "f_isnan x = (f_exponent x = 255 \<and> f_fraction x \<noteq> 0)"

definition f_isinf :: "float32 \<Rightarrow> bool" where
  "f_isinf x = (f_exponent x = 255 \<and> f_fraction x = 0)"

text \<open>The magnitude of a finite pattern, in units of \<open>2\<^sup>-\<^sup>1\<^sup>4\<^sup>9\<close>.\<close>

definition f_units :: "float32 \<Rightarrow> nat" where
  "f_units x =
     (if f_exponent x = 0 then f_fraction x
      else (2 ^ 23 + f_fraction x) * 2 ^ (f_exponent x - 1))"

definition valof :: "float32 \<Rightarrow> fvalue" where
  "valof x =
     (if f_isnan x then NaN
      else if f_isinf x then (if f_sign x then NegInf else PosInf)
      else Finite ((if f_sign x then - 1 else 1) * (real (f_units x) / 2 ^ 149)))"

fun v_less :: "fvalue \<Rightarrow> fvalue \<Rightarrow> bool" where
  "v_less NaN _ = False"
| "v_less _ NaN = False"
| "v_less PosInf _ = False"
| "v_less _ NegInf = False"
| "v_less NegInf _ = True"
| "v_less _ PosInf = True"
| "v_less (Finite a) (Finite b) = (a < b)"

fun v_le :: "fvalue \<Rightarrow> fvalue \<Rightarrow> bool" where
  "v_le NaN _ = False"
| "v_le _ NaN = False"
| "v_le NegInf _ = True"
| "v_le _ PosInf = True"
| "v_le PosInf _ = False"
| "v_le _ NegInf = False"
| "v_le (Finite a) (Finite b) = (a \<le> b)"

text \<open>\<^verbatim>\<open>a < b\<close> and \<^verbatim>\<open>a <= b\<close> on floats.\<close>

definition f_less :: "float32 \<Rightarrow> float32 \<Rightarrow> bool" where
  "f_less a b = v_less (valof a) (valof b)"

definition f_le :: "float32 \<Rightarrow> float32 \<Rightarrow> bool" where
  "f_le a b = v_le (valof a) (valof b)"

text \<open>The literal \<^verbatim>\<open>0\<close> converted to float, and \<^verbatim>\<open>std::numeric_limits<float>::infinity()\<close>.\<close>

definition f_zero :: float32 where
  "f_zero = 0"

definition f_infinity :: float32 where
  "f_infinity = 0x7F800000"

section \<open>Single-precision operations\<close>

text \<open>
  The rounded operations of the target (\<^verbatim>\<open>+\<close>, \<^verbatim>\<open>*\<close>, \<^verbatim>\<open>/\<close> on floats and the
  conversion of an \<^verbatim>\<open>unsigned int\<close> to float) are parameters of the functions that use
  them: what is proved holds for every rounding behaviour.
\<close>

text \<open>\<^verbatim>\<open>vec3<float>\<close> or \<^verbatim>\<open>float3\<close>, and \<^verbatim>\<open>uint3\<close>.\<close>

type_synonym float3 = "float32 \<times> float32 \<times> float32"
type_synonym uint3 = "32 word \<times> 32 word \<times> 32 word"

record float_ops =
  fp_add :: "float32 \<Rightarrow> float32 \<Rightarrow> float32"
  fp_mul :: "float32 \<Rightarrow> float32 \<Rightarrow> float32"
  fp_div :: "float32 \<Rightarrow> float32 \<Rightarrow> float32"
  fp_of_uint :: "32 word \<Rightarrow> float32"

text \<open>The literal \<^verbatim>\<open>float(0.5)\<close>, and a quiet NaN.\<close>

definition f_half :: float32 where
  "f_half = 0x3F000000"

definition f_qnan :: float32 where
  "f_qnan = 0x7FC00000"

text \<open>\<^verbatim>\<open>std::min(a, b)\<close> is \<^verbatim>\<open>(b < a) ? b : a\<close>.\<close>

definition std_min :: "float32 \<Rightarrow> float32 \<Rightarrow> float32" where
  "std_min a b = (if f_less b a then b else a)"

text \<open>
  \<^verbatim>\<open>std::nextafter(x, y)\<close> on floats: NaN if an argument is NaN; \<^verbatim>\<open>y\<close> if the two
  compare equal; from a zero the smallest subnormal with the sign of \<^verbatim>\<open>y\<close>; otherwise the
  neighbouring bit pattern, one up when the magnitude has to grow and one down when it has
  to shrink.
\<close>

definition f_nextafter :: "float32 \<Rightarrow> float32 \<Rightarrow> float32" where
  "f_nextafter x y =
     (if f_isnan x \<or> f_isnan y then f_qnan
      else if valof x = valof y then y
      else if f_bits x = 0 then (if f_sign y then 0x80000001 else 0x00000001)
      else if f_less x y = (\<not> f_sign x) then x + 1
      else x - 1)"

text \<open>
  \<^verbatim>\<open>floorf\<close> on the value of a float, and the conversion of a float to \<^verbatim>\<open>unsigned int\<close>:
  the fraction is dropped, and the behaviour is undefined (\<open>None\<close>) unless the result fits.
\<close>

fun v_floorf :: "fvalue \<Rightarrow> fvalue" where
  "v_floorf (Finite r) = Finite (of_int \<lfloor>r\<rfloor>)"
| "v_floorf v = v"

fun uint_of_value :: "fvalue \<Rightarrow> 32 word option" where
  "uint_of_value (Finite r) =
     (let t = (if 0 \<le> r then \<lfloor>r\<rfloor> else \<lceil>r\<rceil>)
      in if 0 \<le> t \<and> t < 2 ^ 32 then Some (word_of_int t) else None)"
| "uint_of_value v = None"

section \<open>IEEE 754 arithmetic with rounding to nearest, ties to even\<close>

text \<open>
  One instance of the operations, used in the examples: the result of an operation is the
  float nearest to the exact result, the one with an even last bit when two are equally
  near. \<^verbatim>\<open>units_of_bits\<close> is the magnitude of a sign-free bit pattern in units of
  \<open>2\<^sup>-\<^sup>1\<^sup>4\<^sup>9\<close>; at the pattern of infinity it is \<open>2\<^sup>1\<^sup>2\<^sup>8\<close>, the value at which rounding
  overflows. \<^verbatim>\<open>search_down\<close> finds, bit by bit, the largest pattern whose magnitude does
  not exceed \<open>r\<close>.
\<close>

definition units_of_bits :: "nat \<Rightarrow> nat" where
  "units_of_bits b =
     (if b div 2 ^ 23 = 0 then b mod 2 ^ 23
      else (2 ^ 23 + b mod 2 ^ 23) * 2 ^ (b div 2 ^ 23 - 1))"

definition magnitude_of_bits :: "nat \<Rightarrow> real" where
  "magnitude_of_bits b = real (units_of_bits b) / 2 ^ 149"

fun search_down :: "nat \<Rightarrow> nat \<Rightarrow> real \<Rightarrow> nat" where
  "search_down 0 b r = b"
| "search_down (Suc k) b r =
     (if b + 2 ^ k < 0x7F800000 \<and> magnitude_of_bits (b + 2 ^ k) \<le> r
      then search_down k (b + 2 ^ k) r
      else search_down k b r)"

definition round_magnitude :: "real \<Rightarrow> nat" where
  "round_magnitude r =
     (let lo = search_down 31 0 r;
          below = r - magnitude_of_bits lo;
          above = magnitude_of_bits (lo + 1) - r
      in if below < above then lo
         else if above < below then lo + 1
         else if even lo then lo else lo + 1)"

definition round_to_float :: "real \<Rightarrow> float32" where
  "round_to_float r =
     (if 0 \<le> r then of_nat (round_magnitude r)
      else of_nat (2 ^ 31 + round_magnitude (- r)))"

definition with_sign :: "bool \<Rightarrow> float32 \<Rightarrow> float32" where
  "with_sign negative x = of_nat ((if negative then 2 ^ 31 else 0) + f_bits x)"

definition ieee_mul :: "float32 \<Rightarrow> float32 \<Rightarrow> float32" where
  "ieee_mul a b =
     (let negative = (f_sign a \<noteq> f_sign b)
      in case (valof a, valof b) of
           (Finite x, Finite y) \<Rightarrow> with_sign negative (round_to_float (\<bar>x\<bar> * \<bar>y\<bar>))
         | (NaN, _) \<Rightarrow> f_qnan
         | (_, NaN) \<Rightarrow> f_qnan
         | (Finite x, _) \<Rightarrow> if x = 0 then f_qnan else with_sign negative f_infinity
         | (_, Finite y) \<Rightarrow> if y = 0 then f_qnan else with_sign negative f_infinity
         | _ \<Rightarrow> with_sign negative f_infinity)"

definition ieee_div :: "float32 \<Rightarrow> float32 \<Rightarrow> float32" where
  "ieee_div a b =
     (let negative = (f_sign a \<noteq> f_sign b)
      in case (valof a, valof b) of
           (Finite x, Finite y) \<Rightarrow>
             if y = 0 then (if x = 0 then f_qnan else with_sign negative f_infinity)
             else with_sign negative (round_to_float (\<bar>x\<bar> / \<bar>y\<bar>))
         | (NaN, _) \<Rightarrow> f_qnan
         | (_, NaN) \<Rightarrow> f_qnan
         | (Finite x, _) \<Rightarrow> with_sign negative 0
         | (_, Finite y) \<Rightarrow> with_sign negative f_infinity
         | _ \<Rightarrow> f_qnan)"

definition ieee_add :: "float32 \<Rightarrow> float32 \<Rightarrow> float32" where
  "ieee_add a b =
     (case (valof a, valof b) of
        (Finite x, Finite y) \<Rightarrow>
          if x + y = 0 then (if f_sign a \<and> f_sign b then 0x80000000 else 0)
          else round_to_float (x + y)
      | (NaN, _) \<Rightarrow> f_qnan
      | (_, NaN) \<Rightarrow> f_qnan
      | (Finite x, _) \<Rightarrow> b
      | (_, Finite y) \<Rightarrow> a
      | _ \<Rightarrow> if f_sign a = f_sign b then a else f_qnan)"

definition ieee_ops :: float_ops where
  "ieee_ops =
     \<lparr>fp_add = ieee_add, fp_mul = ieee_mul, fp_div = ieee_div,
      fp_of_uint = (\<lambda>n. round_to_float (real (unat n)))\<rparr>"

section \<open>StaticStructureFactorDebye: the constructor\<close>

datatype cpp_exception = invalid_argument string

text \<open>
  \<^verbatim>\<open>util::RegularAxis(bins, k_min, k_max)\<close> and the histogram built on it. The classes
  are declared in headers outside the sources at hand; the record keeps the constructor's
  arguments.
\<close>

record RegularAxis =
  axis_nbins :: "32 word"
  axis_min :: float32
  axis_max :: float32

record S_kHistogram =
  hist_axis :: RegularAxis
  hist_bins :: "float32 list"

text \<open>
  The members the constructor assigns. \<^verbatim>\<open>m_structure_factor.prepare(bins)\<close> leaves an
  array of \<^verbatim>\<open>bins\<close> zeros; the histogram and its thread-local copy start with empty
  bins on the same axis.
\<close>

record StaticStructureFactorDebye =
  m_histogram :: S_kHistogram
  m_local_histograms :: S_kHistogram
  m_min_valid_k :: float32
  m_structure_factor :: "float32 list"

definition StaticStructureFactorDebye_ctor ::
  "32 word \<Rightarrow> float32 \<Rightarrow> float32 \<Rightarrow> cpp_exception + StaticStructureFactorDebye" where
  "StaticStructureFactorDebye_ctor bins k_max k_min =
     (if bins = 0 then
        Inl (invalid_argument
          ''StaticStructureFactorDebye requires a nonzero number of bins.'')
      else if f_le k_max f_zero then
        Inl (invalid_argument
          ''StaticStructureFactorDebye requires k_max to be positive.'')
      else if f_less k_min f_zero then
        Inl (invalid_argument
          ''StaticStructureFactorDebye requires k_min to be non-negative.'')
      else if f_le k_max k_min then
        Inl (invalid_argument
          ''StaticStructureFactorDebye requires that k_max must be greater than k_min.'')
      else
        (let axes = \<lparr>axis_nbins = bins, axis_min = k_min, axis_max = k_max\<rparr>;
             histogram = \<lparr>hist_axis = axes, hist_bins = replicate (unat bins) f_zero\<rparr>
         in Inr \<lparr>m_histogram = histogram,
                 m_local_histograms = histogram,
                 m_min_valid_k = f_infinity,
                 m_structure_factor = replicate (unat bins) f_zero\<rparr>))"

section \<open>StaticStructureFactorDebye: accumulate\<close>

text \<open>
  The two members that the constructor leaves to their initialisers in the class
  declaration extend the record.
\<close>

record StaticStructureFactorDebye_members = StaticStructureFactorDebye +
  m_frame_counter :: "32 word"
  m_reduce :: bool

text \<open>
  The box and the neighbor query, as far as \<^verbatim>\<open>accumulate\<close> reads them: \<^verbatim>\<open>getL()\<close>,
  \<^verbatim>\<open>is2D()\<close>, \<^verbatim>\<open>getBox()\<close> and \<^verbatim>\<open>getPoints()\<close>.
\<close>

record Box =
  Box_getL :: float3
  Box_is2D :: bool

record NeighborQuery =
  nq_getBox :: Box
  nq_getPoints :: "float3 list"

text \<open>
  Modelled from the spec: \<^verbatim>\<open>freud::constants::TWO_PI\<close>, declared in a header outside the
  sources at hand; \<open>2\<pi>\<close> as the nearest float.
\<close>

definition TWO_PI :: float32 where
  "TWO_PI = 0x40C90FDB"

text \<open>
  The locals \<^verbatim>\<open>min_box_length\<close> and \<^verbatim>\<open>r_max\<close> of \<^verbatim>\<open>accumulate\<close>, and the value
  \<^verbatim>\<open>TWO_PI / r_max\<close> that enters the running minimum.
\<close>

definition min_box_length :: "Box \<Rightarrow> float32" where
  "min_box_length box =
     (case Box_getL box of (Lx, Ly, Lz) \<Rightarrow>
        if Box_is2D box then std_min Lx Ly else std_min Lx (std_min Ly Lz))"

definition accumulate_r_max :: "float_ops \<Rightarrow> Box \<Rightarrow> float32" where
  "accumulate_r_max ops box = f_nextafter (fp_mul ops f_half (min_box_length box)) f_zero"

definition frame_min_valid_k :: "float_ops \<Rightarrow> Box \<Rightarrow> float32" where
  "frame_min_valid_k ops box = fp_div ops TWO_PI (accumulate_r_max ops box)"

text \<open>
  \<^verbatim>\<open>accumulate(neighbor_query, query_points, n_query_points, n_total)\<close>. The distances,
  the bin centres and the sum of \<^verbatim>\<open>sinc\<close> over the distances come from classes and
  helpers that are not at hand: \<^verbatim>\<open>frame_S_k\<close> stands for the values \<^verbatim>\<open>S_k\<close> that the
  loop over the bins passes to \<^verbatim>\<open>increment\<close>, one for each bin. Neither \<^verbatim>\<open>r_max\<close> nor
  \<^verbatim>\<open>m_min_valid_k\<close> is read there.
\<close>

definition StaticStructureFactorDebye_accumulate ::
  "float_ops \<Rightarrow> (RegularAxis \<Rightarrow> Box \<Rightarrow> float3 list \<Rightarrow> float3 list \<Rightarrow> 32 word \<Rightarrow> float32 list) \<Rightarrow>
   NeighborQuery \<Rightarrow> float3 list \<Rightarrow> 32 word \<Rightarrow>
   StaticStructureFactorDebye_members \<Rightarrow> StaticStructureFactorDebye_members" where
  "StaticStructureFactorDebye_accumulate ops frame_S_k neighbor_query query_points n_total self =
     (let box = nq_getBox neighbor_query;
          r_max = accumulate_r_max ops box;
          points = nq_getPoints neighbor_query;
          min_valid_k = std_min (m_min_valid_k self) (fp_div ops TWO_PI r_max);
          S_k = frame_S_k (hist_axis (m_histogram self)) box points query_points n_total;
          local = m_local_histograms self
      in self\<lparr>m_min_valid_k := min_valid_k,
              m_local_histograms := local\<lparr>hist_bins := map2 (fp_add ops) (hist_bins local) S_k\<rparr>,
              m_frame_counter := m_frame_counter self + 1,
              m_reduce := True\<rparr>)"

text \<open>
  A frame is one call of \<^verbatim>\<open>accumulate\<close>: its neighbor query, query points and
  \<^verbatim>\<open>n_total\<close>.
\<close>

type_synonym frame = "NeighborQuery \<times> float3 list \<times> 32 word"

definition accumulate_frames ::
  "float_ops \<Rightarrow> (RegularAxis \<Rightarrow> Box \<Rightarrow> float3 list \<Rightarrow> float3 list \<Rightarrow> 32 word \<Rightarrow> float32 list) \<Rightarrow>
   frame list \<Rightarrow> StaticStructureFactorDebye_members \<Rightarrow> StaticStructureFactorDebye_members" where
  "accumulate_frames ops frame_S_k frames self =
     fold (\<lambda>(nq, query_points, n_total).
             StaticStructureFactorDebye_accumulate ops frame_S_k nq query_points n_total)
          frames self"

text \<open>
  For the examples: the unit cube, a neighbor query over one point in it, and an object
  as the constructor leaves it for \<^verbatim>\<open>(bins, k_max, k_min) = (2, 10, 0)\<close>, with a frame
  counter of zero.
\<close>

definition unit_box :: Box where
  "unit_box = \<lparr>Box_getL = (0x3F800000, 0x3F800000, 0x3F800000), Box_is2D = False\<rparr>"

definition unit_query :: NeighborQuery where
  "unit_query = \<lparr>nq_getBox = unit_box, nq_getPoints = [(0, 0, 0)]\<rparr>"

definition demo_debye :: StaticStructureFactorDebye_members where
  "demo_debye =
     StaticStructureFactorDebye.extend
       (projr (StaticStructureFactorDebye_ctor 2 0x41200000 0))
       (StaticStructureFactorDebye_members.fields 0 False)"

section \<open>A compute class for the examples\<close>

text \<open>
  A subclass in the shape of the docstring's example: \<^verbatim>\<open>compute\<close> stores a result,
  a computed property reads it, \<^verbatim>\<open>reset\<close> drops it. The one attribute of the subclass
  is the record's extension.
\<close>

definition demo_compute :: "(nat Compute_scheme, nat) py_method" where
  "demo_compute self = (self\<lparr>Compute.more := 7\<rparr>, Inr 0)"

definition demo_value :: "(nat Compute_scheme, nat) py_method" where
  "demo_value self = (self, Inr (Compute.more self))"

definition demo_reset :: "(nat Compute_scheme, unit) py_method" where
  "demo_reset self = (self\<lparr>Compute.more := 0\<rparr>, Inr ())"

text \<open>
  A second reset method for the same class, whose body recomputes at once: it calls the
  decorated \<^verbatim>\<open>compute\<close>.
\<close>

definition demo_reset_recompute :: "(nat Compute_scheme, nat) py_method" where
  "demo_reset_recompute self = Compute_compute demo_compute self"

section \<open>LinkCell.h: the cell-list iterator\<close>

text \<open>\<^verbatim>\<open>const unsigned int LINK_CELL_TERMINATOR = 0xffffffff\<close>.\<close>

definition LINK_CELL_TERMINATOR :: "32 word" where
  "LINK_CELL_TERMINATOR = 0xffffffff"

text \<open>
  The iterator's members. \<^verbatim>\<open>m_cell_list\<close> is the shared array, a list here; an index
  at or beyond its length is outside the allocation.
\<close>

record IteratorLinkCell =
  m_cell_list :: "32 word list"
  m_Np :: "32 word"
  m_Nc :: "32 word"
  m_cur_idx :: "32 word"

text \<open>
  The constructor. Its three \<^verbatim>\<open>assert\<close>s (\<^verbatim>\<open>cell < Nc\<close>, \<^verbatim>\<open>Np > 0\<close>, \<^verbatim>\<open>Nc > 0\<close>) are
  compiled out of a release build and change no member.
\<close>

definition IteratorLinkCell_ctor ::
  "32 word list \<Rightarrow> 32 word \<Rightarrow> 32 word \<Rightarrow> 32 word \<Rightarrow> IteratorLinkCell" where
  "IteratorLinkCell_ctor cell_list Np Nc cell =
     \<lparr>m_cell_list = cell_list, m_Np = Np, m_Nc = Nc, m_cur_idx = Np + cell\<rparr>"

definition IteratorLinkCell_atEnd :: "IteratorLinkCell \<Rightarrow> bool" where
  "IteratorLinkCell_atEnd it = (m_cur_idx it = LINK_CELL_TERMINATOR)"

text \<open>
  \<^verbatim>\<open>next()\<close>: \<^verbatim>\<open>m_cur_idx = m_cell_list[m_cur_idx]; return m_cur_idx;\<close>. The read is
  unchecked: outside the array the behaviour is undefined, which is the result \<open>None\<close>.
  Inside it the new state and the returned index are the result.
\<close>

definition IteratorLinkCell_next ::
  "IteratorLinkCell \<Rightarrow> (IteratorLinkCell \<times> 32 word) option" where
  "IteratorLinkCell_next it =
     (if unat (m_cur_idx it) < length (m_cell_list it)
      then (let it' = it\<lparr>m_cur_idx := m_cell_list it ! unat (m_cur_idx it)\<rparr>
            in Some (it', m_cur_idx it'))
      else None)"

text \<open>
  \<^verbatim>\<open>nextPy()\<close>: the same step, then \<^verbatim>\<open>if (atEnd())\<close> the Python error indicator is set
  to \<^verbatim>\<open>StopIteration\<close> and thrown; otherwise the index is returned.
\<close>

definition IteratorLinkCell_nextPy ::
  "IteratorLinkCell \<Rightarrow> (IteratorLinkCell \<times> (py_exception + 32 word)) option" where
  "IteratorLinkCell_nextPy it =
     (if unat (m_cur_idx it) < length (m_cell_list it)
      then (let it' = it\<lparr>m_cur_idx := m_cell_list it ! unat (m_cur_idx it)\<rparr>
            in if IteratorLinkCell_atEnd it'
               then Some (it', Inl StopIteration)
               else Some (it', Inr (m_cur_idx it')))
      else None)"

section \<open>LinkCell.h: the cell of a point\<close>

text \<open>
  \<^verbatim>\<open>Index3D\<close> is declared in a header outside the sources at hand; the record holds what
  \<^verbatim>\<open>getW()\<close>, \<^verbatim>\<open>getH()\<close> and \<^verbatim>\<open>getD()\<close> return. The box is of a class that is not at
  hand either: \<^verbatim>\<open>'box\<close> is its type and \<^verbatim>\<open>makeunit\<close> a parameter of \<^verbatim>\<open>getCellCoord\<close>.
\<close>

record Index3D =
  index_W :: "32 word"
  index_H :: "32 word"
  index_D :: "32 word"

record 'box LinkCell =
  m_box :: 'box
  m_cell_index :: Index3D

text \<open>
  One axis of \<^verbatim>\<open>getCellCoord\<close>: \<^verbatim>\<open>c = floorf(alpha * float(N)); c %= N;\<close>. The
  remainder by zero is undefined.
\<close>

definition cell_coord_axis :: "float_ops \<Rightarrow> float32 \<Rightarrow> 32 word \<Rightarrow> 32 word option" where
  "cell_coord_axis ops alpha N =
     (case uint_of_value (v_floorf (valof (fp_mul ops alpha (fp_of_uint ops N)))) of
        None \<Rightarrow> None
      | Some c \<Rightarrow> if N = 0 then None else Some (c mod N))"

definition LinkCell_getCellCoord ::
  "float_ops \<Rightarrow> ('box \<Rightarrow> float3 \<Rightarrow> float3) \<Rightarrow> 'box LinkCell \<Rightarrow> float3 \<Rightarrow> uint3 option" where
  "LinkCell_getCellCoord ops makeunit self p =
     (case makeunit (m_box self) p of (alpha_x, alpha_y, alpha_z) \<Rightarrow>
        case cell_coord_axis ops alpha_x (index_W (m_cell_index self)) of None \<Rightarrow> None | Some cx \<Rightarrow>
        case cell_coord_axis ops alpha_y (index_H (m_cell_index self)) of None \<Rightarrow> None | Some cy \<Rightarrow>
        case cell_coord_axis ops alpha_z (index_D (m_cell_index self)) of None \<Rightarrow> None | Some cz \<Rightarrow>
          Some (cx, cy, cz))"

text \<open>A grid of 4 by 4 by 4 cells for the examples; its box plays no part.\<close>

definition demo_cells :: "unit LinkCell" where
  "demo_cells = \<lparr>m_box = (), m_cell_index = \<lparr>index_W = 4, index_H = 4, index_D = 4\<rparr>\<rparr>"

text \<open>A grid of 3 by 3 by 3 cells.\<close>

definition demo_cells3 :: "unit LinkCell" where
  "demo_cells3 = \<lparr>m_box = (), m_cell_index = \<lparr>index_W = 3, index_H = 3, index_D = 3\<rparr>\<rparr>"

section \<open>kspace.pyx: reciprocal lattice vectors\<close>

text \<open>
  Vectors of three reals; \<^verbatim>\<open>np.cross\<close>, \<^verbatim>\<open>np.dot\<close> and the product of a scalar
  with an array, over exact arithmetic.
\<close>

type_synonym vec3 = "real \<times> real \<times> real"

fun np_cross :: "vec3 \<Rightarrow> vec3 \<Rightarrow> vec3" where
  "np_cross (a1, a2, a3) (b1, b2, b3) =
     (a2 * b3 - a3 * b2, a3 * b1 - a1 * b3, a1 * b2 - a2 * b1)"

fun np_dot :: "vec3 \<Rightarrow> vec3 \<Rightarrow> real" where
  "np_dot (a1, a2, a3) (b1, b2, b3) = a1 * b1 + a2 * b2 + a3 * b3"

fun np_scale :: "real \<Rightarrow> vec3 \<Rightarrow> vec3" where
  "np_scale c (a1, a2, a3) = (c * a1, c * a2, c * a3)"

text \<open>
  \<^verbatim>\<open>reciprocalLattice3D(a1, a2, a3)\<close>. A zero triple product makes numpy divide by zero,
  which gives infinite or NaN entries and a warning; no real vector is returned then,
  which is the result \<open>None\<close>.
\<close>

definition reciprocalLattice3D ::
  "vec3 \<Rightarrow> vec3 \<Rightarrow> vec3 \<Rightarrow> (vec3 \<times> vec3 \<times> vec3) option" where
  "reciprocalLattice3D a1 a2 a3 =
     (let a2xa3 = np_cross a2 a3;
          a3xa1 = np_cross a3 a1;
          a1xa2 = np_cross a1 a2
      in if np_dot a1 a2xa3 = 0 \<or> np_dot a2 a3xa1 = 0 \<or> np_dot a3 a1xa2 = 0 then None
         else Some (np_scale (2 * pi / np_dot a1 a2xa3) a2xa3,
                    np_scale (2 * pi / np_dot a2 a3xa1) a3xa1,
                    np_scale (2 * pi / np_dot a3 a1xa2) a1xa2))"

section \<open>kspace.pyx: the particle-type registry of SingleCell3D\<close>

text \<open>
  Values that a per-type parameter list can hold, and Python's \<^verbatim>\<open>==\<close> between such a
  value and an \<^verbatim>\<open>int\<close>: numbers compare by value, \<^verbatim>\<open>None\<close> and strings are never
  equal to a number.
\<close>

datatype pyval = PyNone | PyInt int | PyFloat real | PyStr string

fun pyval_eq_int :: "int \<Rightarrow> pyval \<Rightarrow> py_exception + bool" where
  "pyval_eq_int i (PyInt n) = Inr (n = i)"
| "pyval_eq_int i (PyFloat r) = Inr (r = of_int i)"
| "pyval_eq_int i _ = Inr False"

text \<open>
  A numpy array, as its rows. The truth value of \<^verbatim>\<open>array == i\<close> is that of the one
  comparison for an array of one element, false for an empty array, and an error for a
  larger one.
\<close>

type_synonym ndarray = "real list list"

definition ndarray_eq_int :: "int \<Rightarrow> ndarray \<Rightarrow> py_exception + bool" where
  "ndarray_eq_int i arr =
     (case concat arr of
        [] \<Rightarrow> Inr False
      | [x] \<Rightarrow> Inr (x = of_int i)
      | _ \<Rightarrow> Inl (ValueError
          ''The truth value of an array with more than one element is ambiguous. Use a.any() or a.all()''))"

text \<open>A form factor slot: \<^verbatim>\<open>None\<close> or an object without \<^verbatim>\<open>__eq__\<close>; neither equals an int.\<close>

definition never_eq_int :: "int \<Rightarrow> 'a \<Rightarrow> py_exception + bool" where
  "never_eq_int i x = Inr False"

text \<open>
  \<^verbatim>\<open>list.index(x)\<close>: the position of the first element equal to \<^verbatim>\<open>x\<close>, or
  \<^verbatim>\<open>ValueError\<close>.
\<close>

fun index_from :: "nat \<Rightarrow> 'a list \<Rightarrow> 'a \<Rightarrow> nat option" where
  "index_from k [] x = None"
| "index_from k (y # ys) x = (if y = x then Some k else index_from (Suc k) ys x)"

definition list_index :: "string list \<Rightarrow> string \<Rightarrow> py_exception + nat" where
  "list_index xs x =
     (case index_from 0 xs x of
        None \<Rightarrow> Inl (ValueError ([CHR 0x27] @ x @ [CHR 0x27] @ '' is not in list''))
      | Some k \<Rightarrow> Inr k)"

text \<open>
  \<^verbatim>\<open>list.remove(v)\<close>: deletes the first element that compares equal to the value
  \<^verbatim>\<open>v\<close>; \<^verbatim>\<open>ValueError\<close> when there is none. The comparison is a parameter, since
  it depends on the element type; an error it raises ends the search.
\<close>

fun list_remove :: "('a \<Rightarrow> py_exception + bool) \<Rightarrow> 'a list \<Rightarrow> py_exception + 'a list" where
  "list_remove eq [] = Inl (ValueError ''list.remove(x): x not in list'')"
| "list_remove eq (y # ys) =
     (case eq y of
        Inl e \<Rightarrow> Inl e
      | Inr True \<Rightarrow> Inr ys
      | Inr False \<Rightarrow> (case list_remove eq ys of Inl e \<Rightarrow> Inl e | Inr zs \<Rightarrow> Inr (y # zs)))"

text \<open>
  The registry's attributes. \<^verbatim>\<open>ptype_param\<close> is a dict from a parameter name to a list
  with one value per type, kept here in insertion order; \<^verbatim>\<open>active_types\<close> is a set of
  indices. \<^verbatim>\<open>'ff\<close> is the class of form factor objects.
\<close>

record 'ff SingleCell3D =
  FT_valid :: bool
  ptype_name :: "string list"
  ptype_position :: "ndarray list"
  ptype_orientation :: "ndarray list"
  ptype_ff :: "'ff option list"
  ptype_param :: "(string \<times> pyval list) list"
  ptype_param_methods :: "pyval list"
  active_types :: "nat set"

text \<open>The part of \<^verbatim>\<open>__init__\<close> that sets up the registry.\<close>

definition SingleCell3D_init :: "'ff SingleCell3D" where
  "SingleCell3D_init =
     \<lparr>FT_valid = False,
      ptype_name = [],
      ptype_position = [],
      ptype_orientation = [],
      ptype_ff = [],
      ptype_param = [],
      ptype_param_methods = [],
      active_types = {}\<rparr>"

text \<open>\<^verbatim>\<open>add_ptype(name)\<close>.\<close>

definition add_ptype :: "string \<Rightarrow> ('ff SingleCell3D, unit) py_method" where
  "add_ptype name self =
     (if name \<in> set (ptype_name self)
      then (self, Inl (ValueError (name @ '' already exists'')))
      else (self\<lparr>ptype_name := ptype_name self @ [name],
                 ptype_position := ptype_position self @ [[]],
                 ptype_orientation := ptype_orientation self @ [[]],
                 ptype_ff := ptype_ff self @ [None],
                 ptype_param := map (\<lambda>(param, vals). (param, vals @ [PyNone])) (ptype_param self)\<rparr>,
            Inr ()))"

text \<open>\<^verbatim>\<open>set_active(name)\<close> and \<^verbatim>\<open>set_inactive(name)\<close>.\<close>

definition set_active :: "string \<Rightarrow> ('ff SingleCell3D, unit) py_method" where
  "set_active name self =
     (case list_index (ptype_name self) name of
        Inl e \<Rightarrow> (self, Inl e)
      | Inr i \<Rightarrow>
          (if i \<notin> active_types self
           then (self\<lparr>active_types := insert i (active_types self), FT_valid := False\<rparr>, Inr ())
           else (self, Inr ())))"

definition set_inactive :: "string \<Rightarrow> ('ff SingleCell3D, unit) py_method" where
  "set_inactive name self =
     (case list_index (ptype_name self) name of
        Inl e \<Rightarrow> (self, Inl e)
      | Inr i \<Rightarrow>
          (if i \<in> active_types self
           then (self\<lparr>active_types := active_types self - {i}, FT_valid := False\<rparr>, Inr ())
           else (self, Inr ())))"

text \<open>
  The loop \<^verbatim>\<open>for param in self.ptype_param: self.ptype_param[param].remove(i)\<close>. The lists
  are changed in place, so the ones already treated stay changed when a later
  \<^verbatim>\<open>remove\<close> raises. The result is the dict and the exception that ended the loop, if any.
\<close>

fun remove_from_params ::
  "int \<Rightarrow> (string \<times> pyval list) list \<Rightarrow> (string \<times> pyval list) list \<times> py_exception option" where
  "remove_from_params i [] = ([], None)"
| "remove_from_params i ((param, vals) # rest) =
     (case list_remove (pyval_eq_int i) vals of
        Inl e \<Rightarrow> ((param, vals) # rest, Some e)
      | Inr vals' \<Rightarrow>
          (case remove_from_params i rest of
             (rest', r) \<Rightarrow> ((param, vals') # rest', r)))"

text \<open>
  \<^verbatim>\<open>remove_ptype(name)\<close>, statement by statement. Every \<^verbatim>\<open>remove(i)\<close> is given the
  index \<^verbatim>\<open>i\<close> as the value to look for.
\<close>

definition remove_ptype :: "string \<Rightarrow> ('ff SingleCell3D, unit) py_method" where
  "remove_ptype name self =
     (case list_index (ptype_name self) name of
        Inl e \<Rightarrow> (self, Inl e)
      | Inr i \<Rightarrow>
     (let self1 = (if i \<in> active_types self
                   then self\<lparr>active_types := active_types self - {i}\<rparr> else self)
      in case remove_from_params (int i) (ptype_param self1) of
        (params, Some e) \<Rightarrow> (self1\<lparr>ptype_param := params\<rparr>, Inl e)
      | (params, None) \<Rightarrow>
     (let self2 = self1\<lparr>ptype_param := params\<rparr>
      in case list_remove (pyval_eq_int (int i)) (ptype_param_methods self2) of
        Inl e \<Rightarrow> (self2, Inl e)
      | Inr methods \<Rightarrow>
     (let self3 = self2\<lparr>ptype_param_methods := methods\<rparr>
      in case list_remove (never_eq_int (int i)) (ptype_ff self3) of
        Inl e \<Rightarrow> (self3, Inl e)
      | Inr ffs \<Rightarrow>
     (let self4 = self3\<lparr>ptype_ff := ffs\<rparr>
      in case list_remove (ndarray_eq_int (int i)) (ptype_orientation self4) of
        Inl e \<Rightarrow> (self4, Inl e)
      | Inr orientations \<Rightarrow>
     (let self5 = self4\<lparr>ptype_orientation := orientations\<rparr>
      in case list_remove (ndarray_eq_int (int i)) (ptype_position self5) of
        Inl e \<Rightarrow> (self5, Inl e)
      | Inr positions \<Rightarrow>
     (let self6 = self5\<lparr>ptype_position := positions\<rparr>
      in case list_remove (never_eq_int (int i)) (ptype_name self6) of
        Inl e \<Rightarrow> (self6, Inl e)
      | Inr names \<Rightarrow>
     (let self7 = self6\<lparr>ptype_name := names\<rparr>
      in if i \<in> active_types self7
         then (self7\<lparr>FT_valid := False\<rparr>, Inr ())
         else (self7, Inr ())))))))))"

section \<open>kspace.pyx: SFactor3DPoints\<close>




















section \<open>kspace.pyx: GaussianSpot\<close>

text \<open>
  The spot classes compute in \<^verbatim>\<open>float32\<close> and \<^verbatim>\<open>float64\<close>; here the numbers are
  reals and the casts \<^verbatim>\<open>np.float32(...)\<close> are the identity. \<^verbatim>\<open>int(r)\<close> on a float
  drops the fraction (towards zero); \<^verbatim>\<open>np.round\<close> rounds to the nearest integer and a
  half to the even neighbour.
\<close>

definition py_int :: "real \<Rightarrow> int" where
  "py_int r = (if 0 \<le> r then \<lfloor>r\<rfloor> else \<lceil>r\<rceil>)"















section \<open>GaussianDensity.cc\<close>

text \<open>
  The density is computed in single precision; here the numbers are reals and the
  arithmetic is exact. \<open>None\<close> is the result of a computation that leaves this model: a
  division by zero (an infinity or NaN in the code), a float outside the range of
  \<^verbatim>\<open>int\<close> at a conversion, an overflow of \<^verbatim>\<open>int\<close>, a remainder by zero.
\<close>

type_synonym rvec3 = "real \<times> real \<times> real"

text \<open>
  The box: \<^verbatim>\<open>getLx()\<close>, \<^verbatim>\<open>getLy()\<close>, \<^verbatim>\<open>getLz()\<close>, \<^verbatim>\<open>getPeriodic()\<close>, \<^verbatim>\<open>is2D()\<close>.
  The class is not under the sources at hand; \<^verbatim>\<open>wrap\<close> is a parameter of \<^verbatim>\<open>compute\<close>.
\<close>

record density_box =
  dbox_Lx :: real
  dbox_Ly :: real
  dbox_Lz :: real
  dbox_periodic :: "bool \<times> bool \<times> bool"
  dbox_is2D :: bool

text \<open>The neighbor query: \<^verbatim>\<open>getBox()\<close> and the points \<^verbatim>\<open>(*nq)[0 .. getNPoints() - 1]\<close>.\<close>

record density_query =
  dq_getBox :: density_box
  dq_points :: "rvec3 list"

text \<open>
  \<^verbatim>\<open>util::ManagedArray<float>\<close> of three dimensions: the shape and the entries in
  row-major order.
\<close>

record ManagedArray =
  arr_shape :: "nat \<times> nat \<times> nat"
  arr_data :: "real list"

text \<open>
  Modelled from the spec: \<^verbatim>\<open>ManagedArray::prepare(shape)\<close>, which is not under the
  sources at hand, "reallocates and zeroes storage".
\<close>

definition prepare :: "nat \<times> nat \<times> nat \<Rightarrow> ManagedArray" where
  "prepare shape =
     (case shape of (nx, ny, nz) \<Rightarrow>
        \<lparr>arr_shape = shape, arr_data = replicate (nx * ny * nz) 0\<rparr>)"

text \<open>\<^verbatim>\<open>array(ni, nj, nk) += v\<close>.\<close>

definition add_at :: "nat \<times> nat \<times> nat \<Rightarrow> real \<Rightarrow> ManagedArray \<Rightarrow> ManagedArray" where
  "add_at idx v a =
     (case (idx, arr_shape a) of ((ni, nj, nk), (nx, ny, nz)) \<Rightarrow>
        let flat = (ni * ny + nj) * nz + nk
        in a\<lparr>arr_data := (arr_data a)[flat := arr_data a ! flat + v]\<rparr>)"

text \<open>
  Modelled from the spec: \<^verbatim>\<open>ThreadStorage::reduceInto(result)\<close>, which is not under the
  sources at hand, reduces "all thread-local grids into the single output density grid
  (sum, not average)". The thread-local grids are one grid here, their sum; it is added
  into the entries of \<^verbatim>\<open>result\<close>.
\<close>

definition reduceInto :: "ManagedArray \<Rightarrow> ManagedArray \<Rightarrow> ManagedArray" where
  "reduceInto local result =
     result\<lparr>arr_data := map2 (+) (arr_data result) (arr_data local)\<rparr>"

text \<open>The conversion \<^verbatim>\<open>int(x)\<close> of a float, and \<^verbatim>\<open>int\<close> arithmetic without overflow.\<close>

definition in_int_range :: "int \<Rightarrow> bool" where
  "in_int_range t = (- (2 ^ 31) \<le> t \<and> t < 2 ^ 31)"

definition int_of_float :: "real \<Rightarrow> int option" where
  "int_of_float r = (if in_int_range (py_int r) then Some (py_int r) else None)"

definition float_div :: "real \<Rightarrow> real \<Rightarrow> real option" where
  "float_div a b = (if b = 0 then None else Some (a / b))"

text \<open>
  \<^verbatim>\<open>(i + m_width) % m_width\<close> with \<^verbatim>\<open>int i\<close> and \<^verbatim>\<open>unsigned int m_width\<close>: the sum
  is formed in \<^verbatim>\<open>unsigned int\<close>.
\<close>

definition fold_index :: "int \<Rightarrow> 32 word \<Rightarrow> nat option" where
  "fold_index i width = (if width = 0 then None else Some (unat ((word_of_int i + width) mod width)))"

record GaussianDensity =
  gd_box :: density_box
  gd_width :: "32 word \<times> 32 word \<times> 32 word"
  gd_r_max :: real
  gd_sigma :: real
  gd_density_array :: ManagedArray

text \<open>The constructor; the box starts as the default box and the array empty.\<close>

definition GaussianDensity_ctor ::
  "density_box \<Rightarrow> 32 word \<times> 32 word \<times> 32 word \<Rightarrow> real \<Rightarrow> real \<Rightarrow> cpp_exception + GaussianDensity" where
  "GaussianDensity_ctor default_box width r_max sigma =
     (if r_max \<le> 0
      then Inl (invalid_argument ''GaussianDensity requires r_max to be positive.'')
      else Inr \<lparr>gd_box = default_box, gd_width = width, gd_r_max = r_max, gd_sigma = sigma,
               gd_density_array = \<lparr>arr_shape = (0, 0, 0), arr_data = []\<rparr>\<rparr>)"

text \<open>
  The constants that \<^verbatim>\<open>compute\<close> sets up before its loops: the grid sizes, the numbers
  of bins within the cutoff, and the normalisation \<^verbatim>\<open>A\<close>.
\<close>

record density_constants =
  grid_size :: rvec3
  bin_cut :: "int \<times> int \<times> int"
  norm_A :: real

definition density_setup :: "GaussianDensity \<Rightarrow> density_box \<Rightarrow> density_constants option" where
  "density_setup self box =
     (case gd_width self of (wx, wy, wz) \<Rightarrow>
      case float_div (dbox_Lx box) (real (unat wx)) of None \<Rightarrow> None | Some grid_size_x \<Rightarrow>
      case float_div (dbox_Ly box) (real (unat wy)) of None \<Rightarrow> None | Some grid_size_y \<Rightarrow>
      case (if dbox_is2D box then Some 0 else float_div (dbox_Lz box) (real (unat wz)))
        of None \<Rightarrow> None | Some grid_size_z \<Rightarrow>
      case Option.bind (float_div (gd_r_max self) grid_size_x) int_of_float
        of None \<Rightarrow> None | Some bin_cut_x \<Rightarrow>
      case Option.bind (float_div (gd_r_max self) grid_size_y) int_of_float
        of None \<Rightarrow> None | Some bin_cut_y \<Rightarrow>
      case (if dbox_is2D box then Some 0
            else Option.bind (float_div (gd_r_max self) grid_size_z) int_of_float)
        of None \<Rightarrow> None | Some bin_cut_z \<Rightarrow>
      case float_div 1 (2 * pi * (gd_sigma self * gd_sigma self)) of None \<Rightarrow> None | Some q \<Rightarrow>
        Some \<lparr>grid_size = (grid_size_x, grid_size_y, grid_size_z),
              bin_cut = (bin_cut_x, bin_cut_y, bin_cut_z),
              norm_A = sqrt q\<rparr>)"

text \<open>
  The bin of a point along one axis, \<^verbatim>\<open>int((p + l / 2.0f) / grid_size)\<close>, and the loop
  range \<^verbatim>\<open>bin - bin_cut, ..., bin + bin_cut\<close> of an axis without the bins that are
  rejected: outside \<^verbatim>\<open>[0, int(width))\<close> in an aperiodic direction.
\<close>

definition point_bin :: "real \<Rightarrow> real \<Rightarrow> real \<Rightarrow> int option" where
  "point_bin p l grid_size_a = Option.bind (float_div (p + l / 2) grid_size_a) int_of_float"

definition axis_bins :: "bool \<Rightarrow> 32 word \<Rightarrow> int \<Rightarrow> int \<Rightarrow> int list option" where
  "axis_bins periodic_a width_a b0 ncut =
     (if in_int_range (b0 - ncut) \<and> in_int_range (b0 + ncut + 1)
      then Some (filter (\<lambda>b. periodic_a \<or> \<not> (b < 0 \<or> sint width_a \<le> b)) [b0 - ncut..b0 + ncut])
      else None)"

text \<open>
  The body of the innermost loop for the bin \<^verbatim>\<open>(i, j, k)\<close>: the distance from the point
  to the centre of the bin, wrapped into the box, and the deposit into the thread-local
  array when it is within \<^verbatim>\<open>r_max\<close>.
\<close>

definition deposit_bin ::
  "(density_box \<Rightarrow> rvec3 \<Rightarrow> rvec3) \<Rightarrow> GaussianDensity \<Rightarrow> density_constants \<Rightarrow> rvec3 \<Rightarrow>
   int \<times> int \<times> int \<Rightarrow> ManagedArray \<Rightarrow> ManagedArray option" where
  "deposit_bin wrap self c point bin local =
     (case (point, bin, grid_size c, gd_width self)
      of ((px, py, pz), (i, j, k), (grid_size_x, grid_size_y, grid_size_z), (wx, wy, wz)) \<Rightarrow>
        let box = gd_box self;
            dz = (grid_size_z * of_int k + grid_size_z / 2) - pz - dbox_Lz box / 2;
            dy = (grid_size_y * of_int j + grid_size_y / 2) - py - dbox_Ly box / 2;
            dx = (grid_size_x * of_int i + grid_size_x / 2) - px - dbox_Lx box / 2
        in case wrap box (dx, dy, dz) of (ex, ey, ez) \<Rightarrow>
           let r_sq = ex * ex + ey * ey + ez * ez
           in if r_sq < gd_r_max self * gd_r_max self
              then (let gaussian = norm_A c * exp (- r_sq / (2 * (gd_sigma self * gd_sigma self)))
                    in case (fold_index i wx, fold_index j wy, fold_index k wz)
                       of (Some ni, Some nj, Some nk) \<Rightarrow> Some (add_at (ni, nj, nk) gaussian local)
                        | _ \<Rightarrow> None)
              else Some local)"

text \<open>
  The three nested loops for one point, \<^verbatim>\<open>k\<close> outermost and \<^verbatim>\<open>i\<close> innermost. In 2D
  \<^verbatim>\<open>bin_z\<close> is set to 0 after its computation, whose value is not used.
\<close>

definition deposit_point ::
  "(density_box \<Rightarrow> rvec3 \<Rightarrow> rvec3) \<Rightarrow> GaussianDensity \<Rightarrow> density_constants \<Rightarrow> rvec3 \<Rightarrow>
   ManagedArray \<Rightarrow> ManagedArray option" where
  "deposit_point wrap self c point local =
     (case (point, grid_size c, bin_cut c, gd_width self, dbox_periodic (gd_box self))
      of ((px, py, pz), (grid_size_x, grid_size_y, grid_size_z),
          (bin_cut_x, bin_cut_y, bin_cut_z), (wx, wy, wz), (periodic_x, periodic_y, periodic_z)) \<Rightarrow>
        case point_bin px (dbox_Lx (gd_box self)) grid_size_x of None \<Rightarrow> None | Some bin_x \<Rightarrow>
        case point_bin py (dbox_Ly (gd_box self)) grid_size_y of None \<Rightarrow> None | Some bin_y \<Rightarrow>
        case (if dbox_is2D (gd_box self) then Some 0
              else point_bin pz (dbox_Lz (gd_box self)) grid_size_z) of None \<Rightarrow> None | Some bin_z \<Rightarrow>
        case axis_bins periodic_z wz bin_z bin_cut_z of None \<Rightarrow> None | Some ks \<Rightarrow>
        case axis_bins periodic_y wy bin_y bin_cut_y of None \<Rightarrow> None | Some js \<Rightarrow>
        case axis_bins periodic_x wx bin_x bin_cut_x of None \<Rightarrow> None | Some iis \<Rightarrow>
          fold (\<lambda>bin acc. Option.bind acc (deposit_bin wrap self c point bin))
            (concat (map (\<lambda>k. concat (map (\<lambda>j. map (\<lambda>i. (i, j, k)) iis) js)) ks))
            (Some local))"

text \<open>
  \<^verbatim>\<open>GaussianDensity::compute(nq)\<close>: the box is stored, the output array prepared, the
  thread-local array created with zeros (its class is not under the sources at hand), the
  constants set up, the points deposited, and the thread-local array reduced into the
  output array.
\<close>

definition GaussianDensity_compute ::
  "(density_box \<Rightarrow> rvec3 \<Rightarrow> rvec3) \<Rightarrow> density_query \<Rightarrow> GaussianDensity \<Rightarrow> GaussianDensity option" where
  "GaussianDensity_compute wrap nq self0 =
     (let box = dq_getBox nq;
          self = self0\<lparr>gd_box := box\<rparr>
      in case gd_width self of (wx, wy, wz) \<Rightarrow>
         let width = (unat wx, unat wy, if dbox_is2D box then 1 else unat wz);
             self = self\<lparr>gd_density_array := prepare width\<rparr>;
             local_bin_counts = prepare width
         in case density_setup self (gd_box self) of None \<Rightarrow> None | Some c \<Rightarrow>
            case fold (\<lambda>point acc. Option.bind acc (deposit_point wrap self c point))
                   (dq_points nq) (Some local_bin_counts)
            of None \<Rightarrow> None
             | Some local \<Rightarrow>
                 Some (self\<lparr>gd_density_array := reduceInto local (gd_density_array self)\<rparr>))"

text \<open>
  For the examples: a periodic cube of side 4 with two bins along each axis, one point in
  the middle of the first bin, and a box function \<^verbatim>\<open>wrap\<close> that leaves short vectors
  as they are.
\<close>

definition demo_density_box :: density_box where
  "demo_density_box =
     \<lparr>dbox_Lx = 4, dbox_Ly = 4, dbox_Lz = 4, dbox_periodic = (True, True, True),
      dbox_is2D = False\<rparr>"

definition demo_density_query :: density_query where
  "demo_density_query = \<lparr>dq_getBox = demo_density_box, dq_points = [(- 1, - 1, - 1)]\<rparr>"

definition demo_density :: GaussianDensity where
  "demo_density =
     projr (GaussianDensity_ctor
       \<lparr>dbox_Lx = 0, dbox_Ly = 0, dbox_Lz = 0, dbox_periodic = (True, True, True),
        dbox_is2D = False\<rparr> (2, 2, 2) 1 1)"

section \<open>Theorems\<close>

subsection \<open>The lifecycle guard\<close>

lemma computed_property_blocked:
  "\<not> called_compute self \<Longrightarrow>
     Compute_computed_property prop self = (self, Inl (AttributeError not_computed_msg))"
  by (simp add: Compute_computed_property_def)

lemma computed_property_open:
  "called_compute self \<Longrightarrow> Compute_computed_property prop self = prop self"
  by (simp add: Compute_computed_property_def)

lemma compute_sets_flag:
  "func self = (self', Inr r) \<Longrightarrow>
     Compute_compute func self = (self'\<lparr>called_compute := True\<rparr>, Inr r)"
  by (simp add: Compute_compute_def)

lemma reset_clears_flag:
  "keeps_flag func \<Longrightarrow> \<not> called_compute (fst (Compute_reset func self))"
proof -
  assume k: "keeps_flag func"
  obtain s' out where f: "func (self\<lparr>called_compute := False\<rparr>) = (s', out)"
    by (cases "func (self\<lparr>called_compute := False\<rparr>)")
  from k have "called_compute (fst (func (self\<lparr>called_compute := False\<rparr>))) = False"
    unfolding keeps_flag_def by simp
  with f have "\<not> called_compute s'" by simp
  with f show ?thesis
    by (cases out) (simp_all add: Compute_reset_def)
qed

lemma reset_runs_body_cleared:
  "fst (Compute_reset func self) = fst (func (self\<lparr>called_compute := False\<rparr>))"
  by (cases "func (self\<lparr>called_compute := False\<rparr>)" rule: prod.exhaust;
      cases "snd (func (self\<lparr>called_compute := False\<rparr>))")
     (simp_all add: Compute_reset_def)

text \<open>
  Claim C1, amended. A computed property fails with the state error "Property not computed.
  Call compute first." whenever the flag is false, and is the property itself whenever the
  flag is true. The read fails right after construction; it goes through to the property
  after a call of a compute-decorated method that returned (the wrapper sets the flag once
  the wrapped function has returned). A reset-decorated method clears the flag and then
  runs its body, so the flag after the call is the one the body leaves when it is started
  with the flag cleared: the read fails again when the body leaves the flag alone, and it
  goes through when the body has set the flag.
\<close>

theorem C1_lifecycle_guard:
  fixes func :: "('a Compute_scheme, 'r) py_method"
    and getter :: "('a Compute_scheme, 'p) py_method"
    and rfunc :: "('a Compute_scheme, 'q) py_method"
  assumes ok: "func s0 = (s1, Inr r)"
  shows "(\<forall>self. \<not> called_compute self \<longrightarrow>
            Compute_computed_property getter self =
              (self, Inl (AttributeError ''Property not computed. Call compute first.'')))
       \<and> (\<forall>self. called_compute self \<longrightarrow> Compute_computed_property getter self = getter self)
       \<and> Compute_computed_property getter (Compute_cinit rest) =
            (Compute_cinit rest,
             Inl (AttributeError ''Property not computed. Call compute first.''))
       \<and> (let s2 = fst (Compute_compute func s0) in
            s2 = s1\<lparr>called_compute := True\<rparr> \<and>
            Compute_computed_property getter s2 = getter s2 \<and>
            (let s3 = fst (Compute_reset rfunc s2) in
               s3 = fst (rfunc (s2\<lparr>called_compute := False\<rparr>)) \<and>
               (keeps_flag rfunc \<longrightarrow>
                  \<not> called_compute s3 \<and>
                  Compute_computed_property getter s3 =
                    (s3, Inl (AttributeError ''Property not computed. Call compute first.''))) \<and>
               (called_compute s3 \<longrightarrow> Compute_computed_property getter s3 = getter s3)))"
proof -
  have msg: "not_computed_msg = ''Property not computed. Call compute first.''"
    by (simp add: not_computed_msg_def)
  have guard: "\<forall>self. \<not> called_compute self \<longrightarrow>
      Compute_computed_property getter self =
        (self, Inl (AttributeError ''Property not computed. Call compute first.''))"
    using computed_property_blocked [of _ getter] by (simp add: msg)
  have through: "\<forall>self. called_compute self \<longrightarrow>
      Compute_computed_property getter self = getter self"
    by (simp add: computed_property_open)
  have fresh: "\<not> called_compute (Compute_cinit rest)"
    by (simp add: Compute_cinit_def)
  define s2 where "s2 = fst (Compute_compute func s0)"
  have s2: "s2 = s1\<lparr>called_compute := True\<rparr>"
    using ok by (simp add: s2_def Compute_compute_def)
  then have open2: "Compute_computed_property getter s2 = getter s2"
    by (simp add: computed_property_open)
  define s3 where "s3 = fst (Compute_reset rfunc s2)"
  have body: "s3 = fst (rfunc (s2\<lparr>called_compute := False\<rparr>))"
    unfolding s3_def by (rule reset_runs_body_cleared)
  have s3: "keeps_flag rfunc \<longrightarrow> \<not> called_compute s3"
    unfolding s3_def using reset_clears_flag [of rfunc s2] by blast
  from guard through fresh s2 open2 body s3 show ?thesis
    unfolding Let_def s2_def [symmetric] s3_def [symmetric] by blast
qed

theorem C1_lifecycle_guard_witness:
  "snd (Compute_computed_property demo_value (Compute_cinit 0)) =
     Inl (AttributeError ''Property not computed. Call compute first.'')
   \<and> snd (Compute_computed_property demo_value
            (fst (Compute_compute demo_compute (Compute_cinit 0)))) = Inr 7
   \<and> snd (Compute_computed_property demo_value
            (fst (Compute_reset demo_reset
               (fst (Compute_compute demo_compute (Compute_cinit 0)))))) =
     Inl (AttributeError ''Property not computed. Call compute first.'')"
proof -
  have ok: "demo_compute (Compute_cinit 0) =
      (\<lparr>called_compute = False, \<dots> = 7\<rparr>, Inr 0)"
    by (simp add: demo_compute_def Compute_cinit_def)
  have frame: "keeps_flag demo_reset"
    by (simp add: keeps_flag_def demo_reset_def)
  show ?thesis
    using C1_lifecycle_guard [where func = demo_compute and ?s0.0 = "Compute_cinit 0"
        and rfunc = demo_reset and getter = demo_value and rest = 0, OF ok] frame
    by (simp add: Let_def demo_value_def demo_compute_def demo_reset_def
        Compute_compute_def Compute_reset_def Compute_cinit_def)
qed

text \<open>
  The claim as stated has the read fail after every reset-decorated method. A reset method
  whose body calls the decorated \<^verbatim>\<open>compute\<close> leaves the flag set, since the wrapper
  clears the flag before the body runs and not after: the property is readable after the
  reset.
\<close>

theorem C1_reset_body_counterexample:
  "called_compute (fst (Compute_reset demo_reset_recompute
       (fst (Compute_compute demo_compute (Compute_cinit 0)))))
   \<and> snd (Compute_computed_property demo_value
            (fst (Compute_reset demo_reset_recompute
               (fst (Compute_compute demo_compute (Compute_cinit 0)))))) = Inr 7"
  by (simp add: demo_reset_recompute_def demo_value_def demo_compute_def
      Compute_compute_def Compute_reset_def Compute_cinit_def Compute_computed_property_def)

subsection \<open>Constructor validation of the Debye structure factor\<close>

lemmas float32_eval =
  valof_def f_isnan_def f_isinf_def f_exponent_def f_fraction_def f_bits_def f_sign_def
  f_units_def f_le_def f_less_def f_zero_def

text \<open>
  Claim C2. The constructor throws \<^verbatim>\<open>std::invalid_argument\<close> exactly when
  \<^verbatim>\<open>bins == 0\<close>, \<^verbatim>\<open>k_max <= 0\<close>, \<^verbatim>\<open>k_min < 0\<close> or \<^verbatim>\<open>k_max <= k_min\<close>; the
  message names the first condition violated, in this order, and a failing call returns no
  object.
\<close>

theorem C2_ctor_validation:
  "(isl (StaticStructureFactorDebye_ctor bins k_max k_min) \<longleftrightarrow>
      bins = 0 \<or> f_le k_max f_zero \<or> f_less k_min f_zero \<or> f_le k_max k_min)
   \<and> (bins = 0 \<longrightarrow> StaticStructureFactorDebye_ctor bins k_max k_min =
        Inl (invalid_argument
          ''StaticStructureFactorDebye requires a nonzero number of bins.''))
   \<and> (bins \<noteq> 0 \<and> f_le k_max f_zero \<longrightarrow>
        StaticStructureFactorDebye_ctor bins k_max k_min =
        Inl (invalid_argument
          ''StaticStructureFactorDebye requires k_max to be positive.''))
   \<and> (bins \<noteq> 0 \<and> \<not> f_le k_max f_zero \<and> f_less k_min f_zero \<longrightarrow>
        StaticStructureFactorDebye_ctor bins k_max k_min =
        Inl (invalid_argument
          ''StaticStructureFactorDebye requires k_min to be non-negative.''))
   \<and> (bins \<noteq> 0 \<and> \<not> f_le k_max f_zero \<and> \<not> f_less k_min f_zero \<and> f_le k_max k_min \<longrightarrow>
        StaticStructureFactorDebye_ctor bins k_max k_min =
        Inl (invalid_argument
          ''StaticStructureFactorDebye requires that k_max must be greater than k_min.''))"
  by (simp add: StaticStructureFactorDebye_ctor_def Let_def)

theorem C2_ctor_validation_witness:
  "isl (StaticStructureFactorDebye_ctor 0 0x3F800000 0)
   \<and> isl (StaticStructureFactorDebye_ctor 10 0 0)
   \<and> isl (StaticStructureFactorDebye_ctor 10 0x3F800000 0xBF000000)
   \<and> isl (StaticStructureFactorDebye_ctor 10 0x3F800000 0x3F800000)
   \<and> \<not> isl (StaticStructureFactorDebye_ctor 10 0x3F800000 0)"
proof -
  have a: "isl (StaticStructureFactorDebye_ctor 0 0x3F800000 0)"
    using C2_ctor_validation [of 0 "0x3F800000" 0] by simp
  have b: "isl (StaticStructureFactorDebye_ctor 10 0 0)"
    using C2_ctor_validation [of 10 0 0] by (simp add: float32_eval)
  have c: "isl (StaticStructureFactorDebye_ctor 10 0x3F800000 0xBF000000)"
    using C2_ctor_validation [of 10 "0x3F800000" "0xBF000000"] by (simp add: float32_eval)
  have d: "isl (StaticStructureFactorDebye_ctor 10 0x3F800000 0x3F800000)"
    using C2_ctor_validation [of 10 "0x3F800000" "0x3F800000"] by (simp add: float32_eval)
  have e: "\<not> isl (StaticStructureFactorDebye_ctor 10 0x3F800000 0)"
    using C2_ctor_validation [of 10 "0x3F800000" 0] by (simp add: float32_eval)
  from a b c d e show ?thesis by blast
qed

subsection \<open>The cell-list iterator\<close>

lemma next_in_range:
  "unat (m_cur_idx it) < length (m_cell_list it) \<Longrightarrow>
     IteratorLinkCell_next it =
       Some (it\<lparr>m_cur_idx := m_cell_list it ! unat (m_cur_idx it)\<rparr>,
             m_cell_list it ! unat (m_cur_idx it))"
  by (simp add: IteratorLinkCell_next_def Let_def)

lemma nextPy_in_range:
  "unat (m_cur_idx it) < length (m_cell_list it) \<Longrightarrow>
     IteratorLinkCell_nextPy it =
       Some (it\<lparr>m_cur_idx := m_cell_list it ! unat (m_cur_idx it)\<rparr>,
             if m_cell_list it ! unat (m_cur_idx it) = 0xFFFFFFFF then Inl StopIteration
             else Inr (m_cell_list it ! unat (m_cur_idx it)))"
  by (simp add: IteratorLinkCell_nextPy_def IteratorLinkCell_atEnd_def
      LINK_CELL_TERMINATOR_def Let_def)

lemma next_past_end:
  assumes "IteratorLinkCell_atEnd it" and "length (m_cell_list it) < 2 ^ 32"
  shows "IteratorLinkCell_next it = None"
proof -
  from assms(1) have "unat (m_cur_idx it) = 2 ^ 32 - 1"
    by (simp add: IteratorLinkCell_atEnd_def LINK_CELL_TERMINATOR_def)
  with assms(2) have "\<not> unat (m_cur_idx it) < length (m_cell_list it)" by simp
  then show ?thesis by (simp add: IteratorLinkCell_next_def)
qed

text \<open>
  Claim C5. \<^verbatim>\<open>atEnd()\<close> holds exactly when the current index is \<^verbatim>\<open>0xFFFFFFFF\<close>.
  \<^verbatim>\<open>nextPy()\<close> raises \<^verbatim>\<open>StopIteration\<close> exactly when the step lands on the terminator,
  that is when \<^verbatim>\<open>next()\<close> from the same state ends in a state that is at the end.
  \<^verbatim>\<open>next()\<close> itself checks nothing: inside the array it returns the entry it read, the
  terminator included, and called at the end it reads outside the array (an array of
  fewer than \<open>2\<^sup>3\<^sup>2\<close> entries has no index \<^verbatim>\<open>0xFFFFFFFF\<close>).
\<close>

theorem C5_iterator_end:
  "(IteratorLinkCell_atEnd it \<longleftrightarrow> m_cur_idx it = 0xFFFFFFFF)
   \<and> ((\<exists>it'. IteratorLinkCell_nextPy it = Some (it', Inl StopIteration)) \<longleftrightarrow>
        (\<exists>it' v. IteratorLinkCell_next it = Some (it', v) \<and> IteratorLinkCell_atEnd it'))
   \<and> (unat (m_cur_idx it) < length (m_cell_list it) \<longrightarrow>
        IteratorLinkCell_next it =
          Some (it\<lparr>m_cur_idx := m_cell_list it ! unat (m_cur_idx it)\<rparr>,
                m_cell_list it ! unat (m_cur_idx it))
        \<and> IteratorLinkCell_nextPy it =
          Some (it\<lparr>m_cur_idx := m_cell_list it ! unat (m_cur_idx it)\<rparr>,
                if m_cell_list it ! unat (m_cur_idx it) = 0xFFFFFFFF then Inl StopIteration
                else Inr (m_cell_list it ! unat (m_cur_idx it))))
   \<and> (IteratorLinkCell_atEnd it \<and> length (m_cell_list it) < 2 ^ 32 \<longrightarrow>
        IteratorLinkCell_next it = None)"
proof -
  have a: "IteratorLinkCell_atEnd it \<longleftrightarrow> m_cur_idx it = 0xFFFFFFFF"
    by (simp add: IteratorLinkCell_atEnd_def LINK_CELL_TERMINATOR_def)
  have b: "(\<exists>it'. IteratorLinkCell_nextPy it = Some (it', Inl StopIteration)) \<longleftrightarrow>
        (\<exists>it' v. IteratorLinkCell_next it = Some (it', v) \<and> IteratorLinkCell_atEnd it')"
    by (auto simp: IteratorLinkCell_nextPy_def IteratorLinkCell_next_def Let_def
        split: if_splits)
  from a b next_in_range [of it] nextPy_in_range [of it] next_past_end [of it]
  show ?thesis by blast
qed

theorem C5_iterator_end_witness:
  "IteratorLinkCell_next (IteratorLinkCell_ctor [0xFFFFFFFF, 0, 0xFFFFFFFF, 1] 2 2 1) =
     Some (\<lparr>m_cell_list = [0xFFFFFFFF, 0, 0xFFFFFFFF, 1], m_Np = 2, m_Nc = 2, m_cur_idx = 1\<rparr>, 1)
   \<and> IteratorLinkCell_nextPy (IteratorLinkCell_ctor [0xFFFFFFFF, 0, 0xFFFFFFFF, 1] 2 2 1) =
     Some (\<lparr>m_cell_list = [0xFFFFFFFF, 0, 0xFFFFFFFF, 1], m_Np = 2, m_Nc = 2, m_cur_idx = 1\<rparr>,
           Inr 1)
   \<and> IteratorLinkCell_next (IteratorLinkCell_ctor [0xFFFFFFFF, 0, 0xFFFFFFFF, 1] 2 2 0) =
     Some (\<lparr>m_cell_list = [0xFFFFFFFF, 0, 0xFFFFFFFF, 1], m_Np = 2, m_Nc = 2,
            m_cur_idx = 0xFFFFFFFF\<rparr>, 0xFFFFFFFF)
   \<and> IteratorLinkCell_nextPy (IteratorLinkCell_ctor [0xFFFFFFFF, 0, 0xFFFFFFFF, 1] 2 2 0) =
     Some (\<lparr>m_cell_list = [0xFFFFFFFF, 0, 0xFFFFFFFF, 1], m_Np = 2, m_Nc = 2,
            m_cur_idx = 0xFFFFFFFF\<rparr>, Inl StopIteration)
   \<and> IteratorLinkCell_next
       \<lparr>m_cell_list = [0xFFFFFFFF, 0, 0xFFFFFFFF, 1], m_Np = 2, m_Nc = 2,
        m_cur_idx = 0xFFFFFFFF\<rparr> = None"
proof -
  let ?cl = "[0xFFFFFFFF, 0, 0xFFFFFFFF, 1] :: 32 word list"
  have c1: "unat (m_cur_idx (IteratorLinkCell_ctor ?cl 2 2 1)) = 3"
    by (simp add: IteratorLinkCell_ctor_def)
  have c0: "unat (m_cur_idx (IteratorLinkCell_ctor ?cl 2 2 0)) = 2"
    by (simp add: IteratorLinkCell_ctor_def)
  have l1: "length (m_cell_list (IteratorLinkCell_ctor ?cl 2 2 1)) = 4"
    and l0: "length (m_cell_list (IteratorLinkCell_ctor ?cl 2 2 0)) = 4"
    by (simp_all add: IteratorLinkCell_ctor_def)
  have p1: "IteratorLinkCell_next (IteratorLinkCell_ctor ?cl 2 2 1) =
     Some (\<lparr>m_cell_list = ?cl, m_Np = 2, m_Nc = 2, m_cur_idx = 1\<rparr>, 1)
   \<and> IteratorLinkCell_nextPy (IteratorLinkCell_ctor ?cl 2 2 1) =
     Some (\<lparr>m_cell_list = ?cl, m_Np = 2, m_Nc = 2, m_cur_idx = 1\<rparr>, Inr 1)"
    using C5_iterator_end [of "IteratorLinkCell_ctor ?cl 2 2 1"] c1 l1
    by (simp add: IteratorLinkCell_ctor_def)
  have p0: "IteratorLinkCell_next (IteratorLinkCell_ctor ?cl 2 2 0) =
     Some (\<lparr>m_cell_list = ?cl, m_Np = 2, m_Nc = 2, m_cur_idx = 0xFFFFFFFF\<rparr>, 0xFFFFFFFF)
   \<and> IteratorLinkCell_nextPy (IteratorLinkCell_ctor ?cl 2 2 0) =
     Some (\<lparr>m_cell_list = ?cl, m_Np = 2, m_Nc = 2, m_cur_idx = 0xFFFFFFFF\<rparr>,
           Inl StopIteration)"
    using C5_iterator_end [of "IteratorLinkCell_ctor ?cl 2 2 0"] c0 l0
    by (simp add: IteratorLinkCell_ctor_def)
  have pe: "IteratorLinkCell_next
       \<lparr>m_cell_list = ?cl, m_Np = 2, m_Nc = 2, m_cur_idx = 0xFFFFFFFF\<rparr> = None"
    using C5_iterator_end [of "\<lparr>m_cell_list = ?cl, m_Np = 2, m_Nc = 2, m_cur_idx = 0xFFFFFFFF\<rparr>"]
    by simp
  from p1 p0 pe show ?thesis by blast
qed

subsection \<open>Reciprocal lattice vectors\<close>

lemma triple_cyclic:
  "np_dot a2 (np_cross a3 a1) = np_dot a1 (np_cross a2 a3)"
  "np_dot a3 (np_cross a1 a2) = np_dot a1 (np_cross a2 a3)"
  by (cases a1; cases a2; cases a3; simp add: algebra_simps)+

lemma np_dot_scale: "np_dot (np_scale c v) w = c * np_dot v w"
  by (cases v; cases w) (simp add: algebra_simps)

lemma np_dot_commute: "np_dot v w = np_dot w v"
  by (cases v; cases w) (simp add: algebra_simps)

lemma np_cross_orthogonal:
  "np_dot (np_cross a b) a = 0" "np_dot (np_cross a b) b = 0"
  by (cases a; cases b; simp add: algebra_simps)+

text \<open>
  Claim C8. For lattice vectors with a nonzero triple product, the returned vectors are
  \<open>g1 = 2\<pi> (a2 \<times> a3) / (a1 \<cdot> (a2 \<times> a3))\<close> and its cyclic permutations, and
  \<open>g\<^sub>i \<cdot> a\<^sub>j\<close> is \<open>2\<pi>\<close> for \<open>i = j\<close> and \<open>0\<close> otherwise, over exact arithmetic.
\<close>

theorem C8_reciprocal_lattice:
  assumes nondeg: "np_dot a1 (np_cross a2 a3) \<noteq> 0"
  shows "\<exists>g1 g2 g3.
      reciprocalLattice3D a1 a2 a3 = Some (g1, g2, g3)
    \<and> g1 = np_scale (2 * pi / np_dot a1 (np_cross a2 a3)) (np_cross a2 a3)
    \<and> g2 = np_scale (2 * pi / np_dot a2 (np_cross a3 a1)) (np_cross a3 a1)
    \<and> g3 = np_scale (2 * pi / np_dot a3 (np_cross a1 a2)) (np_cross a1 a2)
    \<and> np_dot g1 a1 = 2 * pi \<and> np_dot g1 a2 = 0 \<and> np_dot g1 a3 = 0
    \<and> np_dot g2 a1 = 0 \<and> np_dot g2 a2 = 2 * pi \<and> np_dot g2 a3 = 0
    \<and> np_dot g3 a1 = 0 \<and> np_dot g3 a2 = 0 \<and> np_dot g3 a3 = 2 * pi"
proof -
  define V where "V = np_dot a1 (np_cross a2 a3)"
  have V: "V \<noteq> 0" using nondeg by (simp add: V_def)
  have t2: "np_dot a2 (np_cross a3 a1) = V" and t3: "np_dot a3 (np_cross a1 a2) = V"
    by (simp_all add: V_def triple_cyclic)
  have d1: "np_dot (np_cross a2 a3) a1 = V"
    and d2: "np_dot (np_cross a3 a1) a2 = V"
    and d3: "np_dot (np_cross a1 a2) a3 = V"
    using t2 t3 by (simp_all add: V_def np_dot_commute)
  have some: "reciprocalLattice3D a1 a2 a3 =
      Some (np_scale (2 * pi / V) (np_cross a2 a3),
            np_scale (2 * pi / V) (np_cross a3 a1),
            np_scale (2 * pi / V) (np_cross a1 a2))"
    using V by (simp add: reciprocalLattice3D_def Let_def t2 t3 V_def [symmetric])
  show ?thesis
    using V
    by (simp add: some t2 t3 V_def [symmetric] np_dot_scale np_cross_orthogonal d1 d2 d3)
qed

theorem C8_reciprocal_lattice_witness:
  "reciprocalLattice3D (2, 0, 0) (0, 1, 0) (0, 0, 4) =
     Some ((pi, 0, 0), (0, 2 * pi, 0), (0, 0, pi / 2))
   \<and> np_dot (pi, 0, 0) (2, 0, 0) = 2 * pi
   \<and> np_dot (pi, 0, 0) (0, 1, 0) = 0"
proof -
  have nz: "np_dot (2, 0, 0) (np_cross (0, 1, 0) (0, 0, 4)) \<noteq> 0" by simp
  from C8_reciprocal_lattice [OF nz] show ?thesis by auto
qed

subsection \<open>Removing a particle type\<close>

lemma remove_from_params_fields:
  "remove_from_params i ps = (ps', r) \<Longrightarrow> map fst ps' = map fst ps"
proof (induction ps arbitrary: ps' r)
  case Nil
  then show ?case by simp
next
  case (Cons p ps)
  obtain param vals where p: "p = (param, vals)" by (cases p)
  show ?case
  proof (cases "list_remove (pyval_eq_int i) vals")
    case (Inl e)
    with Cons.prems p show ?thesis by auto
  next
    case (Inr vals')
    obtain rest' r' where rest: "remove_from_params i ps = (rest', r')"
      by (cases "remove_from_params i ps")
    from Cons.IH [OF rest] Cons.prems p Inr rest show ?thesis by auto
  qed
qed

lemma list_remove_pyval_error:
  "list_remove (pyval_eq_int i) vals = Inl e \<Longrightarrow> e = ValueError ''list.remove(x): x not in list''"
proof (induction vals)
  case Nil
  then show ?case by simp
next
  case (Cons v vals)
  then show ?case
    by (cases v) (auto split: sum.splits bool.splits if_splits)
qed

lemma remove_from_params_error:
  "remove_from_params i ps = (ps', Some e) \<Longrightarrow> e = ValueError ''list.remove(x): x not in list''"
proof (induction ps arbitrary: ps')
  case Nil
  then show ?case by simp
next
  case (Cons p ps)
  obtain param vals where p: "p = (param, vals)" by (cases p)
  show ?case
  proof (cases "list_remove (pyval_eq_int i) vals")
    case (Inl e')
    with Cons.prems p list_remove_pyval_error [OF Inl] show ?thesis by auto
  next
    case (Inr vals')
    obtain rest' r' where rest: "remove_from_params i ps = (rest', r')"
      by (cases "remove_from_params i ps")
    with Cons.prems p Inr have "r' = Some e" by auto
    with Cons.IH rest show ?thesis by auto
  qed
qed

lemma list_index_error:
  "list_index xs x = Inl e \<Longrightarrow> \<exists>msg. e = ValueError msg"
  by (auto simp: list_index_def split: option.splits)

text \<open>
  With \<^verbatim>\<open>ptype_param_methods\<close> empty, \<^verbatim>\<open>remove_ptype\<close> raises \<^verbatim>\<open>ValueError\<close> for every
  name and every cell, and leaves the four per-type lists as they were.
\<close>

lemma remove_ptype_raises:
  assumes empty: "ptype_param_methods self = []"
  shows "\<exists>msg. snd (remove_ptype name self) = Inl (ValueError msg)"
    and "ptype_name (fst (remove_ptype name self)) = ptype_name self"
    and "ptype_position (fst (remove_ptype name self)) = ptype_position self"
    and "ptype_orientation (fst (remove_ptype name self)) = ptype_orientation self"
    and "ptype_ff (fst (remove_ptype name self)) = ptype_ff self"
    and "ptype_param_methods (fst (remove_ptype name self)) = []"
proof -
  show "\<exists>msg. snd (remove_ptype name self) = Inl (ValueError msg)"
  proof (cases "list_index (ptype_name self) name")
    case (Inl e)
    with list_index_error [OF Inl] show ?thesis by (auto simp: remove_ptype_def)
  next
    case (Inr i)
    define self1 where "self1 = (if i \<in> active_types self
                   then self\<lparr>active_types := active_types self - {i}\<rparr> else self)"
    obtain params r where pr: "remove_from_params (int i) (ptype_param self1) = (params, r)"
      by (cases "remove_from_params (int i) (ptype_param self1)")
    have m1: "ptype_param_methods self1 = []" using empty by (simp add: self1_def)
    show ?thesis
    proof (cases r)
      case None
      with Inr pr m1 show ?thesis
        by (simp add: remove_ptype_def Let_def self1_def [symmetric])
    next
      case (Some e)
      with remove_from_params_error pr have "e = ValueError ''list.remove(x): x not in list''"
        by blast
      with Some Inr pr show ?thesis
        by (simp add: remove_ptype_def Let_def self1_def [symmetric])
    qed
  qed
next
  show "ptype_name (fst (remove_ptype name self)) = ptype_name self"
    using empty
    by (auto simp: remove_ptype_def Let_def split: sum.splits prod.splits option.splits)
next
  show "ptype_position (fst (remove_ptype name self)) = ptype_position self"
    using empty
    by (auto simp: remove_ptype_def Let_def split: sum.splits prod.splits option.splits)
next
  show "ptype_orientation (fst (remove_ptype name self)) = ptype_orientation self"
    using empty
    by (auto simp: remove_ptype_def Let_def split: sum.splits prod.splits option.splits)
next
  show "ptype_ff (fst (remove_ptype name self)) = ptype_ff self"
    using empty
    by (auto simp: remove_ptype_def Let_def split: sum.splits prod.splits option.splits)
next
  show "ptype_param_methods (fst (remove_ptype name self)) = []"
    using empty
    by (auto simp: remove_ptype_def Let_def split: sum.splits prod.splits option.splits)
qed

text \<open>The list is empty after construction, and no other method of the registry changes it.\<close>

lemma registry_methods_stay_empty:
  "ptype_param_methods (SingleCell3D_init :: 'ff SingleCell3D) = []"
  "ptype_param_methods (fst (add_ptype name self)) = ptype_param_methods self"
  "ptype_param_methods (fst (set_active name self)) = ptype_param_methods self"
  "ptype_param_methods (fst (set_inactive name self)) = ptype_param_methods self"
  by (auto simp: SingleCell3D_init_def add_ptype_def set_active_def set_inactive_def
      split: sum.splits)

text \<open>
  Claim C6 says that \<^verbatim>\<open>remove_ptype(name)\<close> deletes the type's entry from the name,
  position, orientation and form factor lists, from every parameter list and from the
  active set. The method passes the index to \<^verbatim>\<open>list.remove\<close>, which looks for a value;
  \<^verbatim>\<open>ptype_param_methods\<close> is never appended to, so the call on it raises. On a cell
  with the one type \<^verbatim>\<open>A\<close> the method raises \<^verbatim>\<open>ValueError\<close> and the type is still
  registered.
\<close>

theorem C6_remove_ptype_failing_input:
  "remove_ptype ''A'' (fst (add_ptype ''A'' (SingleCell3D_init :: unit SingleCell3D))) =
     (\<lparr>FT_valid = False,
       ptype_name = [''A''],
       ptype_position = [[]],
       ptype_orientation = [[]],
       ptype_ff = [None],
       ptype_param = [],
       ptype_param_methods = [],
       active_types = {}\<rparr>,
      Inl (ValueError ''list.remove(x): x not in list''))"
  by (simp add: remove_ptype_def add_ptype_def SingleCell3D_init_def list_index_def Let_def)

subsection \<open>SFactor3DPoints: the normalization by the centre element\<close>


















subsection \<open>GaussianSpot: the sub-grid and the spot values\<close>














lemma map2_same:
  "map2 f (map g1 L) (map g2 L) = map (\<lambda>p. f (g1 p) (g2 p)) L"
  by (induction L) simp_all










subsection \<open>Evaluating the IEEE operations\<close>

lemma search_down_numeral:
  "search_down (numeral n) b r =
     (if b + 2 ^ pred_numeral n < 0x7F800000 \<and> magnitude_of_bits (b + 2 ^ pred_numeral n) \<le> r
      then search_down (pred_numeral n) (b + 2 ^ pred_numeral n) r
      else search_down (pred_numeral n) b r)"
  by (subst numeral_eq_Suc) (rule search_down.simps)

lemma search_down_1:
  "search_down 1 b r =
     (if b + 2 ^ 0 < 0x7F800000 \<and> magnitude_of_bits (b + 2 ^ 0) \<le> r then b + 2 ^ 0 else b)"
  unfolding One_nat_def by (simp only: search_down.simps)

lemmas ieee_eval = ieee_ops_def ieee_mul_def ieee_div_def with_sign_def round_to_float_def
  round_magnitude_def magnitude_of_bits_def units_of_bits_def float32_eval f_infinity_def
  f_qnan_def f_half_def Let_def search_down_numeral search_down_1

subsection \<open>The cell of a point\<close>

lemma cell_coord_axis_value:
  assumes v: "valof (fp_mul ops alpha (fp_of_uint ops N)) = Finite t"
    and t: "0 \<le> t" "t < 2 ^ 32" and N: "N \<noteq> 0"
  shows "\<exists>c. cell_coord_axis ops alpha N = Some c
       \<and> unat c = nat \<lfloor>t\<rfloor> mod unat N \<and> c < N"
proof -
  have f0: "0 \<le> \<lfloor>t\<rfloor>" using t by simp
  have f1: "\<lfloor>t\<rfloor> < 2 ^ 32" using t by (simp add: floor_less_iff)
  have u: "uint_of_value (v_floorf (Finite t)) = Some (word_of_int \<lfloor>t\<rfloor>)"
    using f0 f1 by (simp add: Let_def)
  have c: "cell_coord_axis ops alpha N = Some (word_of_int \<lfloor>t\<rfloor> mod N)"
    using N u
    by (simp add: cell_coord_axis_def v del: uint_of_value.simps v_floorf.simps)
  have un: "unat (word_of_int \<lfloor>t\<rfloor> :: 32 word) = nat \<lfloor>t\<rfloor>"
    using f0 f1 by (simp add: unat_eq_nat_uint uint_word_of_int take_bit_int_eq_self)
  have "unat (word_of_int \<lfloor>t\<rfloor> mod N) = nat \<lfloor>t\<rfloor> mod unat N"
    by (simp add: unat_mod_distrib un)
  moreover have "word_of_int \<lfloor>t\<rfloor> mod N < N"
    using N by (simp add: word_mod_less_divisor word_neq_0_conv)
  ultimately show ?thesis using c by simp
qed

lemma cell_coord_axis_undefined:
  assumes v: "valof (fp_mul ops alpha (fp_of_uint ops N)) = v"
    and out: "N = 0 \<or> (\<forall>t. v = Finite t \<longrightarrow> t < 0 \<or> 2 ^ 32 \<le> t)"
  shows "cell_coord_axis ops alpha N = None"
proof (cases "N = 0")
  case True
  then show ?thesis by (simp add: cell_coord_axis_def split: option.split)
next
  case False
  with out have o: "\<forall>t. v = Finite t \<longrightarrow> t < 0 \<or> 2 ^ 32 \<le> t" by simp
  have "uint_of_value (v_floorf v) = None"
  proof (cases v)
    case (Finite t)
    with o have "t < 0 \<or> 2 ^ 32 \<le> t" by simp
    then show ?thesis
    proof
      assume "t < 0"
      then have "\<lfloor>t\<rfloor> < 0" by (simp add: floor_less_iff)
      then show ?thesis by (simp add: Finite Let_def)
    next
      assume "2 ^ 32 \<le> t"
      then have "(2 :: int) ^ 32 \<le> \<lfloor>t\<rfloor>" by (simp add: le_floor_iff)
      then show ?thesis by (simp add: Finite Let_def)
    qed
  qed simp_all
  then show ?thesis by (simp add: cell_coord_axis_def v)
qed

text \<open>
  Claim C4, amended. With \<open>\<alpha> = makeunit(p)\<close>, let \<open>t\<close> be on each axis the float product
  of \<open>\<alpha>\<close> and the cell count \<open>N\<close> converted to float, whatever its rounding. When on every
  axis \<open>t\<close> is a finite float in \<open>[0, 2\<^sup>3\<^sup>2)\<close> and \<open>N\<close> is not zero, \<^verbatim>\<open>getCellCoord(p)\<close>
  returns on each axis \<open>\<lfloor>t\<rfloor> mod N\<close>; the coordinate is below \<open>N\<close>, and it is 0 when the
  product comes out as \<open>N\<close> itself. In every other case the call has no defined result: on
  some axis \<open>N\<close> is zero, or \<open>t\<close> is NaN, infinite, at least \<open>2\<^sup>3\<^sup>2\<close> or negative, so that
  \<^verbatim>\<open>floorf\<close> yields a value the conversion to \<^verbatim>\<open>unsigned int\<close> is not defined for. This
  includes every \<open>t\<close> strictly between \<open>-1\<close> and 0, which \<^verbatim>\<open>floorf\<close> takes to \<open>-1\<close>.
\<close>

theorem C4_cell_coord:
  assumes mk: "makeunit (m_box self) p = (ax, ay, az)"
    and W: "index_W (m_cell_index self) = W"
    and H: "index_H (m_cell_index self) = H"
    and D: "index_D (m_cell_index self) = D"
    and vx: "valof (fp_mul ops ax (fp_of_uint ops W)) = vx"
    and vy: "valof (fp_mul ops ay (fp_of_uint ops H)) = vy"
    and vz: "valof (fp_mul ops az (fp_of_uint ops D)) = vz"
  shows "(\<forall>tx ty tz.
            vx = Finite tx \<and> 0 \<le> tx \<and> tx < 2 ^ 32 \<and> W \<noteq> 0
          \<and> vy = Finite ty \<and> 0 \<le> ty \<and> ty < 2 ^ 32 \<and> H \<noteq> 0
          \<and> vz = Finite tz \<and> 0 \<le> tz \<and> tz < 2 ^ 32 \<and> D \<noteq> 0 \<longrightarrow>
          (\<exists>cx cy cz.
              LinkCell_getCellCoord ops makeunit self p = Some (cx, cy, cz)
            \<and> unat cx = nat \<lfloor>tx\<rfloor> mod unat W
            \<and> unat cy = nat \<lfloor>ty\<rfloor> mod unat H
            \<and> unat cz = nat \<lfloor>tz\<rfloor> mod unat D
            \<and> cx < W \<and> cy < H \<and> cz < D
            \<and> (tx = real (unat W) \<longrightarrow> cx = 0)
            \<and> (ty = real (unat H) \<longrightarrow> cy = 0)
            \<and> (tz = real (unat D) \<longrightarrow> cz = 0)))
       \<and> (W = 0 \<or> (\<forall>t. vx = Finite t \<longrightarrow> t < 0 \<or> 2 ^ 32 \<le> t)
          \<or> H = 0 \<or> (\<forall>t. vy = Finite t \<longrightarrow> t < 0 \<or> 2 ^ 32 \<le> t)
          \<or> D = 0 \<or> (\<forall>t. vz = Finite t \<longrightarrow> t < 0 \<or> 2 ^ 32 \<le> t) \<longrightarrow>
          LinkCell_getCellCoord ops makeunit self p = None)"
proof (intro conjI allI impI)
  fix tx ty tz
  assume a: "vx = Finite tx \<and> 0 \<le> tx \<and> tx < 2 ^ 32 \<and> W \<noteq> 0
          \<and> vy = Finite ty \<and> 0 \<le> ty \<and> ty < 2 ^ 32 \<and> H \<noteq> 0
          \<and> vz = Finite tz \<and> 0 \<le> tz \<and> tz < 2 ^ 32 \<and> D \<noteq> 0"
  then have tx: "valof (fp_mul ops ax (fp_of_uint ops W)) = Finite tx" "0 \<le> tx" "tx < 2 ^ 32"
    and ty: "valof (fp_mul ops ay (fp_of_uint ops H)) = Finite ty" "0 \<le> ty" "ty < 2 ^ 32"
    and tz: "valof (fp_mul ops az (fp_of_uint ops D)) = Finite tz" "0 \<le> tz" "tz < 2 ^ 32"
    and N: "W \<noteq> 0" "H \<noteq> 0" "D \<noteq> 0"
    using vx vy vz by simp_all
  obtain cx where cx: "cell_coord_axis ops ax W = Some cx"
      "unat cx = nat \<lfloor>tx\<rfloor> mod unat W" "cx < W"
    using cell_coord_axis_value [OF tx N(1)] by blast
  obtain cy where cy: "cell_coord_axis ops ay H = Some cy"
      "unat cy = nat \<lfloor>ty\<rfloor> mod unat H" "cy < H"
    using cell_coord_axis_value [OF ty N(2)] by blast
  obtain cz where cz: "cell_coord_axis ops az D = Some cz"
      "unat cz = nat \<lfloor>tz\<rfloor> mod unat D" "cz < D"
    using cell_coord_axis_value [OF tz N(3)] by blast
  have run: "LinkCell_getCellCoord ops makeunit self p = Some (cx, cy, cz)"
    by (simp add: LinkCell_getCellCoord_def mk W H D cx(1) cy(1) cz(1))
  have edge: "c = 0" if a: "unat c = nat \<lfloor>t\<rfloor> mod unat N" and b: "t = real (unat N)"
    for c N :: "32 word" and t :: real
  proof -
    have "\<lfloor>t\<rfloor> = int (unat N)" unfolding b by (rule floor_of_nat)
    then have "unat c = 0" using a by simp
    then show ?thesis by (simp only: unat_eq_zero)
  qed
  from run cx cy cz edge [OF cx(2)] edge [OF cy(2)] edge [OF cz(2)]
  show "\<exists>cx cy cz.
              LinkCell_getCellCoord ops makeunit self p = Some (cx, cy, cz)
            \<and> unat cx = nat \<lfloor>tx\<rfloor> mod unat W
            \<and> unat cy = nat \<lfloor>ty\<rfloor> mod unat H
            \<and> unat cz = nat \<lfloor>tz\<rfloor> mod unat D
            \<and> cx < W \<and> cy < H \<and> cz < D
            \<and> (tx = real (unat W) \<longrightarrow> cx = 0)
            \<and> (ty = real (unat H) \<longrightarrow> cy = 0)
            \<and> (tz = real (unat D) \<longrightarrow> cz = 0)"
    by blast
next
  assume out: "W = 0 \<or> (\<forall>t. vx = Finite t \<longrightarrow> t < 0 \<or> 2 ^ 32 \<le> t)
          \<or> H = 0 \<or> (\<forall>t. vy = Finite t \<longrightarrow> t < 0 \<or> 2 ^ 32 \<le> t)
          \<or> D = 0 \<or> (\<forall>t. vz = Finite t \<longrightarrow> t < 0 \<or> 2 ^ 32 \<le> t)"
  then consider
      (x) "W = 0 \<or> (\<forall>t. vx = Finite t \<longrightarrow> t < 0 \<or> 2 ^ 32 \<le> t)"
    | (y) "H = 0 \<or> (\<forall>t. vy = Finite t \<longrightarrow> t < 0 \<or> 2 ^ 32 \<le> t)"
    | (z) "D = 0 \<or> (\<forall>t. vz = Finite t \<longrightarrow> t < 0 \<or> 2 ^ 32 \<le> t)"
    by blast
  then show "LinkCell_getCellCoord ops makeunit self p = None"
  proof cases
    case x
    have "cell_coord_axis ops ax W = None" using vx x by (rule cell_coord_axis_undefined)
    then show ?thesis by (simp add: LinkCell_getCellCoord_def mk W H D)
  next
    case y
    have "cell_coord_axis ops ay H = None" using vy y by (rule cell_coord_axis_undefined)
    then show ?thesis by (simp add: LinkCell_getCellCoord_def mk W H D split: option.split)
  next
    case z
    have "cell_coord_axis ops az D = None" using vz z by (rule cell_coord_axis_undefined)
    then show ?thesis by (simp add: LinkCell_getCellCoord_def mk W H D split: option.split)
  qed
qed

lemma demo_products:
  "fp_of_uint ieee_ops 4 = 0x40800000"
  "fp_mul ieee_ops 0x3F000000 0x40800000 = 0x40000000"
  "fp_mul ieee_ops 0x3E800000 0x40800000 = 0x3F800000"
  "fp_mul ieee_ops 0x3F800000 0x40800000 = 0x40800000"
  by (simp_all add: ieee_eval)

lemma demo_values:
  "valof 0x40000000 = Finite 2" "valof 0x3F800000 = Finite 1" "valof 0x40800000 = Finite 4"
  by (simp_all add: float32_eval)

lemma demo_products3:
  "fp_of_uint ieee_ops 3 = 0x40400000"
  "fp_mul ieee_ops 0xBE800000 0x40400000 = 0xBF400000"
  "fp_mul ieee_ops 0x3F000000 0x40400000 = 0x3FC00000"
  by (simp_all add: ieee_eval)

lemma demo_values3:
  "valof 0xBE800000 = Finite (- 1 / 4)" "valof 0xBF400000 = Finite (- 3 / 4)"
  "valof 0x3FC00000 = Finite (3 / 2)"
  by (simp_all add: float32_eval)

theorem C4_cell_coord_witness:
  "LinkCell_getCellCoord ieee_ops (\<lambda>box p. p) demo_cells
     (0x3F000000, 0x3E800000, 0x3F800000) = Some (2, 1, 0)
   \<and> LinkCell_getCellCoord ieee_ops (\<lambda>box p. p) demo_cells3
     (0x3F000000, 0xBE800000, 0x3F000000) = None"
proof -
  have W: "index_W (m_cell_index demo_cells) = 4"
    and H: "index_H (m_cell_index demo_cells) = 4"
    and D: "index_D (m_cell_index demo_cells) = 4"
    by (simp_all add: demo_cells_def)
  have tx: "valof (fp_mul ieee_ops 0x3F000000 (fp_of_uint ieee_ops 4)) = Finite 2"
    and ty: "valof (fp_mul ieee_ops 0x3E800000 (fp_of_uint ieee_ops 4)) = Finite 1"
    and tz: "valof (fp_mul ieee_ops 0x3F800000 (fp_of_uint ieee_ops 4)) = Finite 4"
    by (simp_all only: demo_products demo_values)
  note t = C4_cell_coord [where makeunit = "\<lambda>box p. p" and self = demo_cells and ops = ieee_ops
        and p = "(0x3F000000, 0x3E800000, 0x3F800000)", OF refl W H D tx ty tz]
  obtain cx cy cz :: "32 word" where
    run: "LinkCell_getCellCoord ieee_ops (\<lambda>box p. p) demo_cells
            (0x3F000000, 0x3E800000, 0x3F800000) = Some (cx, cy, cz)"
    and c: "unat cx = nat \<lfloor>2 :: real\<rfloor> mod unat (4 :: 32 word)"
           "unat cy = nat \<lfloor>1 :: real\<rfloor> mod unat (4 :: 32 word)"
           "(4 :: real) = real (unat (4 :: 32 word)) \<longrightarrow> cz = 0"
    using t [THEN conjunct1, rule_format, of 2 1 4] by auto
  from c have "unat cx = unat (2 :: 32 word)" "unat cy = unat (1 :: 32 word)" "cz = 0"
    by simp_all
  then have "cx = 2" "cy = 1" "cz = 0"
    by (simp_all only: word_unat_eq_iff [symmetric])
  with run have one: "LinkCell_getCellCoord ieee_ops (\<lambda>box p. p) demo_cells
     (0x3F000000, 0x3E800000, 0x3F800000) = Some (2, 1, 0)" by simp
  have W3: "index_W (m_cell_index demo_cells3) = 3"
    and H3: "index_H (m_cell_index demo_cells3) = 3"
    and D3: "index_D (m_cell_index demo_cells3) = 3"
    by (simp_all add: demo_cells3_def)
  have ux: "valof (fp_mul ieee_ops 0x3F000000 (fp_of_uint ieee_ops 3)) = Finite (3 / 2)"
    and uy: "valof (fp_mul ieee_ops 0xBE800000 (fp_of_uint ieee_ops 3)) = Finite (- 3 / 4)"
    by (simp_all only: demo_products3 demo_values3)
  note u = C4_cell_coord [where makeunit = "\<lambda>box p. p" and self = demo_cells3
        and ops = ieee_ops and p = "(0x3F000000, 0xBE800000, 0x3F000000)",
        OF refl W3 H3 D3 ux uy ux]
  have two: "LinkCell_getCellCoord ieee_ops (\<lambda>box p. p) demo_cells3
     (0x3F000000, 0xBE800000, 0x3F000000) = None"
    using u [THEN conjunct2] by simp
  from one two show ?thesis by blast
qed

text \<open>
  The claim as stated gives \<open>\<lfloor>\<alpha> \<cdot> N\<rfloor> mod N\<close> for every point. For a point with the
  fractional coordinate \<open>-1/4\<close> on the first axis of a grid of 3 cells, the product is
  \<open>-3/4\<close>, \<^verbatim>\<open>floorf\<close> gives \<open>-1\<close>, and \<open>\<lfloor>-3/4\<rfloor> mod 3\<close> is 2; the conversion of \<open>-1\<close> to
  \<^verbatim>\<open>unsigned int\<close> is undefined, and \<^verbatim>\<open>getCellCoord\<close> has no defined result.
\<close>

theorem C4_negative_fraction_counterexample:
  "valof 0xBE800000 = Finite (- 1 / 4)
   \<and> valof (fp_mul ieee_ops 0xBE800000 (fp_of_uint ieee_ops 3)) = Finite (- 3 / 4)
   \<and> \<lfloor>- 3 / 4 :: real\<rfloor> mod 3 = 2
   \<and> LinkCell_getCellCoord ieee_ops (\<lambda>box p. p) demo_cells3
        (0xBE800000, 0x3F000000, 0x3F000000) = None"
proof -
  have a: "valof (fp_mul ieee_ops 0xBE800000 (fp_of_uint ieee_ops 3)) = Finite (- 3 / 4)"
    by (simp only: demo_products3 demo_values3)
  have b: "\<lfloor>- 3 / 4 :: real\<rfloor> mod 3 = 2" by simp
  have "cell_coord_axis ieee_ops 0xBE800000 3 = None"
    by (simp add: cell_coord_axis_def a Let_def)
  then have c: "LinkCell_getCellCoord ieee_ops (\<lambda>box p. p) demo_cells3
        (0xBE800000, 0x3F000000, 0x3F000000) = None"
    by (simp add: LinkCell_getCellCoord_def demo_cells3_def)
  from demo_values3(1) a b c show ?thesis by blast
qed

subsection \<open>The order of single-precision values\<close>

lemma units_of_bits_Suc: "units_of_bits b < units_of_bits (Suc b)"
proof -
  define e where "e = b div 2 ^ 23"
  define m where "m = b mod 2 ^ 23"
  have m: "m < 2 ^ 23" by (simp add: m_def)
  have ub: "units_of_bits b = (if e = 0 then m else (2 ^ 23 + m) * 2 ^ (e - 1))"
    by (simp add: units_of_bits_def e_def m_def)
  show ?thesis
  proof (cases "Suc m = 2 ^ 23")
    case False
    then have "Suc b mod 2 ^ 23 = Suc m" and "Suc b div 2 ^ 23 = e"
      by (simp_all add: mod_Suc div_Suc m_def e_def)
    then have us: "units_of_bits (Suc b) =
        (if e = 0 then Suc m else (2 ^ 23 + Suc m) * 2 ^ (e - 1))"
      by (simp add: units_of_bits_def)
    show ?thesis unfolding ub us by simp
  next
    case True
    then have "Suc b mod 2 ^ 23 = 0" and "Suc b div 2 ^ 23 = Suc e"
      by (simp_all add: mod_Suc div_Suc m_def e_def)
    then have us: "units_of_bits (Suc b) = 2 ^ 23 * 2 ^ e"
      by (simp add: units_of_bits_def)
    from True have mv: "m = 2 ^ 23 - 1" by simp
    show ?thesis
    proof (cases e)
      case 0
      then show ?thesis unfolding ub us by (simp add: mv)
    next
      case (Suc e')
      then show ?thesis unfolding ub us by (simp add: mv)
    qed
  qed
qed

lemma units_of_bits_mono: "a < b \<Longrightarrow> units_of_bits a < units_of_bits b"
  by (rule lift_Suc_mono_less [of units_of_bits]) (rule units_of_bits_Suc)

lemma units_of_bits_less_iff: "units_of_bits a < units_of_bits b \<longleftrightarrow> a < b"
  by (metis units_of_bits_mono not_less_iff_gr_or_eq)

lemma units_of_bits_le_iff: "units_of_bits a \<le> units_of_bits b \<longleftrightarrow> a \<le> b"
  by (metis units_of_bits_less_iff not_less)

lemma f_units_bits: "f_units x = units_of_bits (f_bits x)"
  by (simp add: f_units_def units_of_bits_def f_exponent_def f_fraction_def)

lemma f_bits_bound: "f_bits x < 2 ^ 31"
  by (simp add: f_bits_def)

lemma f_bits_split:
  obtains q m where "f_bits x = q * 8388608 + m" "m < 8388608" "q < 256"
    "f_exponent x = q" "f_fraction x = m"
proof
  show "f_bits x = (f_bits x div 2 ^ 23) * 8388608 + f_bits x mod 2 ^ 23" by simp
  show "f_bits x mod 2 ^ 23 < 8388608" by simp
  have "f_bits x < 2 ^ 31" by (rule f_bits_bound)
  then show "f_bits x div 2 ^ 23 < 256" by (simp add: less_mult_imp_div_less)
  show "f_exponent x = f_bits x div 2 ^ 23" by (simp add: f_exponent_def)
  show "f_fraction x = f_bits x mod 2 ^ 23" by (simp add: f_fraction_def)
qed

lemma f_isnan_bits: "f_isnan x \<longleftrightarrow> 0x7F800000 < f_bits x"
proof -
  obtain q m where n: "f_bits x = q * 8388608 + m" and m: "m < 8388608" and q: "q < 256"
    and e: "f_exponent x = q" and f: "f_fraction x = m"
    by (rule f_bits_split)
  show ?thesis
  proof (cases "q = 255")
    case True
    then show ?thesis unfolding f_isnan_def e f n by simp
  next
    case False
    with q have "q \<le> 254" by simp
    then have "q * 8388608 \<le> 254 * 8388608" by (rule mult_le_mono1)
    with m have "q * 8388608 + m < 2139095040" by simp
    with False show ?thesis unfolding f_isnan_def e f n by simp
  qed
qed

lemma f_isinf_bits: "f_isinf x \<longleftrightarrow> f_bits x = 0x7F800000"
proof -
  obtain q m where n: "f_bits x = q * 8388608 + m" and m: "m < 8388608" and q: "q < 256"
    and e: "f_exponent x = q" and f: "f_fraction x = m"
    by (rule f_bits_split)
  show ?thesis
  proof (cases "q = 255")
    case True
    then show ?thesis unfolding f_isinf_def e f n by simp
  next
    case False
    with q have "q \<le> 254" by simp
    then have "q * 8388608 \<le> 254 * 8388608" by (rule mult_le_mono1)
    with m have "q * 8388608 + m < 2139095040" by simp
    with False show ?thesis unfolding f_isinf_def e f n by simp
  qed
qed

lemma valof_cases:
  "valof x =
     (if 0x7F800000 < f_bits x then NaN
      else if f_bits x = 0x7F800000 then (if f_sign x then NegInf else PosInf)
      else Finite ((if f_sign x then - 1 else 1) * (real (units_of_bits (f_bits x)) / 2 ^ 149)))"
  by (simp add: valof_def f_isnan_bits f_isinf_bits f_units_bits)

lemma f_bits_positive: "\<not> f_sign x \<Longrightarrow> f_bits x = unat x"
  by (simp add: f_sign_def f_bits_def)

lemma units_of_bits_zero: "units_of_bits b = 0 \<longleftrightarrow> b = 0"
proof
  assume "units_of_bits b = 0"
  then have "\<not> units_of_bits 0 < units_of_bits b" by (simp add: units_of_bits_def)
  then show "b = 0" by (simp add: units_of_bits_less_iff)
qed (simp add: units_of_bits_def)

text \<open>A float greater than zero has a clear sign bit and a pattern from 1 up to infinity's.\<close>

lemma positive_pattern:
  assumes "f_less f_zero h"
  shows "\<not> f_sign h" and "0 < unat h" and "unat h \<le> 0x7F800000"
proof -
  have z: "valof f_zero = Finite 0"
    by (simp add: valof_cases f_zero_def f_bits_def f_sign_def units_of_bits_def)
  from assms have lt: "v_less (Finite 0) (valof h)"
    by (simp add: f_less_def z)
  have nn: "\<not> 0x7F800000 < f_bits h"
  proof
    assume "0x7F800000 < f_bits h"
    then have "valof h = NaN" by (simp add: valof_cases)
    with lt show False by simp
  qed
  show s: "\<not> f_sign h"
  proof
    assume sg: "f_sign h"
    show False
    proof (cases "f_bits h = 0x7F800000")
      case True
      with sg have "valof h = NegInf" by (simp add: valof_cases)
      with lt show False by simp
    next
      case False
      with sg nn have "valof h = Finite (- (real (units_of_bits (f_bits h)) / 2 ^ 149))"
        by (simp add: valof_cases)
      with lt show False by simp
    qed
  qed
  then have b: "f_bits h = unat h" by (rule f_bits_positive)
  from nn b show "unat h \<le> 0x7F800000" by simp
  show "0 < unat h"
  proof (rule ccontr)
    assume "\<not> 0 < unat h"
    then have "f_bits h = 0" using b by simp
    then have "valof h = Finite 0" using s by (simp add: valof_cases units_of_bits_def)
    with lt show False by simp
  qed
qed

text \<open>Among the patterns with a clear sign that are not NaN, the order of the values is the
  order of the patterns.\<close>

lemma positive_order:
  assumes a: "\<not> f_sign a" "unat a \<le> 0x7F800000"
    and b: "\<not> f_sign b" "unat b \<le> 0x7F800000"
  shows "f_less a b \<longleftrightarrow> unat a < unat b" and "f_le a b \<longleftrightarrow> unat a \<le> unat b"
proof -
  have ba: "f_bits a = unat a" and bb: "f_bits b = unat b"
    using a b by (simp_all add: f_bits_positive)
  have va: "valof a = (if unat a = 0x7F800000 then PosInf
      else Finite (real (units_of_bits (unat a)) / 2 ^ 149))"
    using a by (simp add: valof_cases ba)
  have vb: "valof b = (if unat b = 0x7F800000 then PosInf
      else Finite (real (units_of_bits (unat b)) / 2 ^ 149))"
    using b by (simp add: valof_cases bb)
  show "f_less a b \<longleftrightarrow> unat a < unat b"
    unfolding f_less_def va vb using a(2) b(2)
    by (auto simp: divide_less_cancel units_of_bits_less_iff)
  show "f_le a b \<longleftrightarrow> unat a \<le> unat b"
    unfolding f_le_def va vb using a(2) b(2)
    by (auto simp: divide_le_cancel units_of_bits_le_iff)
qed

text \<open>A pattern with the sign bit set that is not NaN is at most every float with a clear
  sign bit that is not NaN.\<close>

lemma negative_le_positive:
  assumes z: "f_sign z" "\<not> f_isnan z" and r: "\<not> f_sign r" "unat r \<le> 0x7F800000"
  shows "f_le z r"
proof -
  have br: "f_bits r = unat r" using r by (simp add: f_bits_positive)
  have vr: "valof r = (if unat r = 0x7F800000 then PosInf
      else Finite (real (units_of_bits (unat r)) / 2 ^ 149))"
    using r by (simp add: valof_cases br)
  have vz: "valof z = (if f_bits z = 0x7F800000 then NegInf
      else Finite (- (real (units_of_bits (f_bits z)) / 2 ^ 149)))"
    using z by (simp add: valof_cases f_isnan_bits)
  have neg: "- (real (units_of_bits (f_bits z)) / 2 ^ 149) \<le> real (units_of_bits (unat r)) / 2 ^ 149"
    by (rule order_trans [of _ 0]) simp_all
  show ?thesis
    unfolding f_le_def vr vz using neg by simp
qed

lemma v_less_asym: "v_less a b \<Longrightarrow> \<not> v_less b a \<and> a \<noteq> b"
  by (cases a; cases b) simp_all

lemma nextafter_towards_zero:
  assumes pos: "f_less f_zero h"
  shows "f_nextafter h f_zero = h - 1" and "unat (h - 1) = unat h - 1"
proof -
  note p = positive_pattern [OF pos]
  have b: "f_bits h = unat h" using p(1) by (rule f_bits_positive)
  have n1: "\<not> f_isnan h" using p(3) by (simp add: f_isnan_bits b)
  have n2: "\<not> f_isnan f_zero" by (simp add: f_isnan_bits f_zero_def f_bits_def)
  from pos have lt: "v_less (valof f_zero) (valof h)" by (simp add: f_less_def)
  from v_less_asym [OF lt] have ne: "valof h \<noteq> valof f_zero" and ge: "\<not> f_less h f_zero"
    by (auto simp: f_less_def)
  have nz: "f_bits h \<noteq> 0" using p(2) b by simp
  show "f_nextafter h f_zero = h - 1"
    using n1 n2 ne nz ge p(1) by (simp add: f_nextafter_def)
  have "h \<noteq> 0" using p(2) by (simp add: unat_gt_0)
  then show "unat (h - 1) = unat h - 1" by (rule unat_minus_one)
qed

text \<open>The float just below a positive float: smaller, not NaN, and no float lies between.\<close>

lemma nextafter_largest_below:
  assumes pos: "f_less f_zero h"
  shows "\<not> f_isnan (f_nextafter h f_zero)"
    and "f_less (f_nextafter h f_zero) h"
    and "f_less z h \<Longrightarrow> f_le z (f_nextafter h f_zero)"
    and "\<not> f_sign (f_nextafter h f_zero)"
    and "unat (f_nextafter h f_zero) < 0x7F800000"
proof -
  note p = positive_pattern [OF pos]
  note n = nextafter_towards_zero [OF pos]
  let ?r = "f_nextafter h f_zero"
  have u: "unat ?r = unat h - 1" by (simp add: n)
  have ur: "unat ?r < 0x7F800000" "unat ?r < unat h" using u p(2) p(3) by simp_all
  then show "unat ?r < 0x7F800000" by simp
  show s: "\<not> f_sign ?r" using ur(1) by (simp add: f_sign_def)
  then have br: "f_bits ?r = unat ?r" by (rule f_bits_positive)
  show "\<not> f_isnan ?r" using ur(1) by (simp add: f_isnan_bits br)
  show "f_less ?r h"
    using positive_order(1) [OF s _ p(1) p(3)] ur by simp
  show "f_le z ?r" if zh: "f_less z h"
  proof -
    have nz: "\<not> f_isnan z"
    proof
      assume "f_isnan z"
      then have "valof z = NaN" by (simp add: valof_def)
      with zh show False by (simp add: f_less_def)
    qed
    show ?thesis
    proof (cases "f_sign z")
      case True
      then show ?thesis using negative_le_positive [OF True nz s] ur(1) by simp
    next
      case False
      then have bz: "f_bits z = unat z" by (rule f_bits_positive)
      from nz have uz: "unat z \<le> 0x7F800000" by (simp add: f_isnan_bits bz)
      from zh have "unat z < unat h"
        using positive_order(1) [OF False uz p(1) p(3)] by simp
      then have "unat z \<le> unat ?r" using u by simp
      then show ?thesis
        using positive_order(2) [OF False uz s] ur(1) by simp
    qed
  qed
qed

lemma f_isnan_valof: "f_isnan x \<longleftrightarrow> valof x = NaN"
  by (simp add: valof_def)

lemma v_le_refl: "a \<noteq> NaN \<Longrightarrow> v_le a a"
  by (cases a) simp_all

lemma v_le_total: "a \<noteq> NaN \<Longrightarrow> b \<noteq> NaN \<Longrightarrow> \<not> v_less b a \<Longrightarrow> v_le a b"
  by (cases a; cases b) simp_all

lemma v_less_imp_le: "v_less a b \<Longrightarrow> v_le a b"
  by (cases a; cases b) simp_all

lemma v_le_trans: "v_le a b \<Longrightarrow> v_le b c \<Longrightarrow> v_le a c"
  by (cases a; cases b; cases c) simp_all

lemma std_min_cases: "std_min a b = a \<or> std_min a b = b"
  by (simp add: std_min_def)

lemma std_min_le:
  assumes "\<not> f_isnan a" "\<not> f_isnan b"
  shows "f_le (std_min a b) a" and "f_le (std_min a b) b" and "\<not> f_isnan (std_min a b)"
  using assms
  by (auto simp: std_min_def f_le_def f_less_def f_isnan_valof
      intro: v_le_refl v_le_total v_less_imp_le)

lemma f_le_trans: "f_le a b \<Longrightarrow> f_le b c \<Longrightarrow> f_le a c"
  unfolding f_le_def by (rule v_le_trans)

text \<open>The running minimum over a list of values that are not NaN is a lower bound of the
  list and of the start value, and it is one of them.\<close>

lemma running_min:
  assumes "\<forall>k \<in> set ks. \<not> f_isnan k" and "\<not> f_isnan m0"
  shows "f_le (fold (\<lambda>k m. std_min m k) ks m0) m0
       \<and> (\<forall>k \<in> set ks. f_le (fold (\<lambda>k m. std_min m k) ks m0) k)
       \<and> (fold (\<lambda>k m. std_min m k) ks m0 = m0 \<or> fold (\<lambda>k m. std_min m k) ks m0 \<in> set ks)"
  using assms
proof (induction ks arbitrary: m0)
  case Nil
  then show ?case by (simp add: f_le_def f_isnan_valof v_le_refl)
next
  case (Cons k ks)
  let ?m1 = "std_min m0 k"
  let ?r = "fold (\<lambda>k m. std_min m k) ks ?m1"
  from Cons.prems have k: "\<not> f_isnan k" and ks: "\<forall>k \<in> set ks. \<not> f_isnan k" by simp_all
  note m1 = std_min_le [OF Cons.prems(2) k]
  from Cons.IH [OF ks m1(3)] have ih: "f_le ?r ?m1"
      "\<forall>k \<in> set ks. f_le ?r k" "?r = ?m1 \<or> ?r \<in> set ks"
    by simp_all
  have "f_le ?r m0" using ih(1) m1(1) by (rule f_le_trans)
  moreover have "f_le ?r k" using ih(1) m1(2) by (rule f_le_trans)
  moreover have "?r = m0 \<or> ?r \<in> set (k # ks)"
    using ih(3) std_min_cases [of m0 k] by auto
  ultimately show ?case using ih(2) by simp
qed

lemma accumulate_min_valid_k:
  "m_min_valid_k (StaticStructureFactorDebye_accumulate ops frame_S_k nq query_points n_total self) =
     std_min (m_min_valid_k self) (frame_min_valid_k ops (nq_getBox nq))"
  by (simp add: StaticStructureFactorDebye_accumulate_def Let_def frame_min_valid_k_def)

lemma accumulate_frames_min_valid_k:
  "m_min_valid_k (accumulate_frames ops frame_S_k frames self) =
     fold (\<lambda>k m. std_min m k)
       (map (\<lambda>(nq, query_points, n_total). frame_min_valid_k ops (nq_getBox nq)) frames)
       (m_min_valid_k self)"
proof (induction frames arbitrary: self)
  case Nil
  show ?case by (simp add: accumulate_frames_def)
next
  case (Cons fr frames)
  obtain nq qp n where fr: "fr = (nq, qp, n)" by (cases fr)
  have "accumulate_frames ops frame_S_k (fr # frames) self =
      accumulate_frames ops frame_S_k frames
        (StaticStructureFactorDebye_accumulate ops frame_S_k nq qp n self)"
    by (simp add: accumulate_frames_def fr)
  then show ?case
    by (simp add: Cons.IH accumulate_min_valid_k fr)
qed

lemma min_box_length_le:
  assumes L: "Box_getL box = (Lx, Ly, Lz)"
    and nn: "\<not> f_isnan Lx" "\<not> f_isnan Ly" "\<not> f_isnan Lz"
  shows "Box_is2D box \<Longrightarrow>
           (min_box_length box = Lx \<or> min_box_length box = Ly)
           \<and> f_le (min_box_length box) Lx \<and> f_le (min_box_length box) Ly"
    and "\<not> Box_is2D box \<Longrightarrow>
           (min_box_length box = Lx \<or> min_box_length box = Ly \<or> min_box_length box = Lz)
           \<and> f_le (min_box_length box) Lx \<and> f_le (min_box_length box) Ly
           \<and> f_le (min_box_length box) Lz"
proof -
  show "(min_box_length box = Lx \<or> min_box_length box = Ly)
           \<and> f_le (min_box_length box) Lx \<and> f_le (min_box_length box) Ly"
    if "Box_is2D box"
    using that std_min_cases [of Lx Ly] std_min_le [OF nn(1) nn(2)]
    by (simp add: min_box_length_def L)
  show "(min_box_length box = Lx \<or> min_box_length box = Ly \<or> min_box_length box = Lz)
           \<and> f_le (min_box_length box) Lx \<and> f_le (min_box_length box) Ly
           \<and> f_le (min_box_length box) Lz"
    if n3: "\<not> Box_is2D box"
  proof -
    note yz = std_min_le [OF nn(2) nn(3)]
    note x = std_min_le [OF nn(1) yz(3)]
    have m: "min_box_length box = std_min Lx (std_min Ly Lz)"
      using n3 by (simp add: min_box_length_def L)
    have "f_le (std_min Lx (std_min Ly Lz)) Ly" using x(2) yz(1) by (rule f_le_trans)
    moreover have "f_le (std_min Lx (std_min Ly Lz)) Lz" using x(2) yz(2) by (rule f_le_trans)
    ultimately show ?thesis
      using x(1) std_min_cases [of Lx "std_min Ly Lz"] std_min_cases [of Ly Lz]
      unfolding m by auto
  qed
qed

lemma magnitude_of_bits_le_iff: "magnitude_of_bits a \<le> magnitude_of_bits b \<longleftrightarrow> a \<le> b"
  by (simp add: magnitude_of_bits_def divide_le_cancel units_of_bits_le_iff)

lemma magnitude_of_bits_less_iff: "magnitude_of_bits a < magnitude_of_bits b \<longleftrightarrow> a < b"
  by (simp add: magnitude_of_bits_def divide_less_cancel units_of_bits_less_iff)

lemma search_down_largest:
  assumes T: "T < 0x7F800000" "magnitude_of_bits T \<le> r"
    and mx: "\<And>c. c < 0x7F800000 \<Longrightarrow> magnitude_of_bits c \<le> r \<Longrightarrow> c \<le> T"
  shows "b \<le> T \<Longrightarrow> T < b + 2 ^ k \<Longrightarrow> search_down k b r = T"
proof (induction k arbitrary: b)
  case 0
  then show ?case by simp
next
  case (Suc k)
  show ?case
  proof (cases "b + 2 ^ k < 0x7F800000 \<and> magnitude_of_bits (b + 2 ^ k) \<le> r")
    case True
    then have "b + 2 ^ k \<le> T" using mx by blast
    moreover have "T < (b + 2 ^ k) + 2 ^ k" using Suc.prems(2) by simp
    ultimately have "search_down k (b + 2 ^ k) r = T" by (rule Suc.IH)
    with True show ?thesis by simp
  next
    case False
    have "T < b + 2 ^ k"
    proof (rule ccontr)
      assume "\<not> T < b + 2 ^ k"
      then have le: "b + 2 ^ k \<le> T" by simp
      then have "b + 2 ^ k < 0x7F800000" using T(1) by simp
      moreover have "magnitude_of_bits (b + 2 ^ k) \<le> magnitude_of_bits T"
        using le by (simp only: magnitude_of_bits_le_iff)
      ultimately show False using False T(2) by simp
    qed
    with Suc.prems(1) have "search_down k b r = T" by (rule Suc.IH)
    with False show ?thesis by auto
  qed
qed

lemma round_magnitude_exact:
  assumes b: "b < 0x7F800000"
  shows "round_magnitude (magnitude_of_bits b) = b"
proof -
  have lo: "search_down 31 0 (magnitude_of_bits b) = b"
  proof (rule search_down_largest)
    show "b < 0x7F800000" by fact
    show "magnitude_of_bits b \<le> magnitude_of_bits b" by simp
    show "c \<le> b" if "magnitude_of_bits c \<le> magnitude_of_bits b" for c
      using that by (simp only: magnitude_of_bits_le_iff)
    show "0 \<le> b" by simp
    show "b < 0 + 2 ^ 31" using b by simp
  qed
  have "magnitude_of_bits b < magnitude_of_bits (b + 1)"
    by (simp add: magnitude_of_bits_less_iff)
  then show ?thesis by (simp add: round_magnitude_def lo Let_def)
qed

lemma units_of_bits_half:
  assumes b: "2 ^ 23 \<le> b"
  shows "units_of_bits (b + 2 ^ 23) = 2 * units_of_bits b"
proof -
  define e where "e = b div 2 ^ 23"
  define m where "m = b mod 2 ^ 23"
  have "0 < e" using b by (simp add: e_def div_greater_zero_iff)
  then obtain e' where e: "e = Suc e'" by (cases e) auto
  have d: "(b + 2 ^ 23) div 2 ^ 23 = Suc e" "(b + 2 ^ 23) mod 2 ^ 23 = m"
    by (simp_all add: e_def m_def)
  have "units_of_bits b = (if e = 0 then m else (2 ^ 23 + m) * 2 ^ (e - 1))"
    by (simp add: units_of_bits_def e_def m_def)
  then have ub: "units_of_bits b = (2 ^ 23 + m) * 2 ^ e'"
    by (simp add: e)
  have us: "units_of_bits (b + 2 ^ 23) = (2 ^ 23 + m) * 2 ^ e"
    unfolding units_of_bits_def d by simp
  show ?thesis unfolding ub us e by simp
qed

lemma f_bits_of_nat: "n < 2 ^ 31 \<Longrightarrow> f_bits (of_nat n) = n" "n < 2 ^ 31 \<Longrightarrow> \<not> f_sign (of_nat n)"
proof -
  assume n: "n < 2 ^ 31"
  have "unat (of_nat n :: 32 word) = n"
    using n by (simp add: unsigned_of_nat take_bit_nat_eq_self)
  then show "f_bits (of_nat n) = n" "\<not> f_sign (of_nat n)"
    using n by (simp_all add: f_bits_def f_sign_def)
qed

text \<open>Halving a float of at least \<open>2\<^sup>-\<^sup>1\<^sup>2\<^sup>5\<close> is exact: the exponent field goes down by one.\<close>

lemma ieee_mul_half_exact:
  assumes s: "\<not> f_sign x" and lo: "0x01000000 \<le> unat x" and hi: "unat x < 0x7F800000"
  shows "valof (ieee_mul f_half x) = Finite (real (units_of_bits (unat x)) / 2 ^ 149 / 2)"
proof -
  have bx: "f_bits x = unat x" using s by (rule f_bits_positive)
  have vx: "valof x = Finite (magnitude_of_bits (unat x))"
    using s hi by (simp add: valof_cases bx magnitude_of_bits_def)
  have vh: "valof f_half = Finite (1 / 2)" and sh: "\<not> f_sign f_half"
    by (simp_all add: float32_eval f_half_def)
  define b where "b = unat x - 2 ^ 23"
  have b: "2 ^ 23 \<le> b" "b < 0x7F800000" "unat x = b + 2 ^ 23"
    using lo hi by (simp_all add: b_def)
  have b31: "b < 2 ^ 31" using b(2) by simp
  have "units_of_bits (unat x) = 2 * units_of_bits b"
    unfolding b(3) using b(1) by (rule units_of_bits_half)
  then have half: "magnitude_of_bits (unat x) / 2 = magnitude_of_bits b"
    by (simp add: magnitude_of_bits_def)
  have m0: "0 \<le> magnitude_of_bits c" for c by (simp add: magnitude_of_bits_def)
  have prod: "\<bar>1 / 2\<bar> * \<bar>magnitude_of_bits (unat x)\<bar> = magnitude_of_bits b"
    using half m0 [of "unat x"] by simp
  have r: "round_to_float (magnitude_of_bits b) = of_nat b"
    using m0 [of b] by (simp add: round_to_float_def round_magnitude_exact [OF b(2)])
  have "ieee_mul f_half x = with_sign False (of_nat b)"
    unfolding ieee_mul_def Let_def vx vh using s sh by (simp only: prod r fvalue.case prod.case) simp
  then have res: "ieee_mul f_half x = of_nat b"
    by (simp add: with_sign_def f_bits_of_nat [OF b31])
  have "valof (of_nat b :: float32) = Finite (magnitude_of_bits b)"
    using b(2) by (simp add: valof_cases f_bits_of_nat [OF b31] magnitude_of_bits_def)
  then show ?thesis
    unfolding res using half by (simp add: magnitude_of_bits_def)
qed

lemma positive_finite_pattern:
  assumes v: "valof m = Finite l" and l: "0 < l"
  shows "\<not> f_sign m" and "unat m < 0x7F800000"
    and "l = real (units_of_bits (unat m)) / 2 ^ 149"
proof -
  have z: "valof f_zero = Finite 0"
    by (simp add: valof_cases f_zero_def f_bits_def f_sign_def units_of_bits_def)
  have pos: "f_less f_zero m" using l by (simp add: f_less_def z v)
  note p = positive_pattern [OF pos]
  show s: "\<not> f_sign m" by (rule p(1))
  have bm: "f_bits m = unat m" using s by (rule f_bits_positive)
  have ne: "unat m \<noteq> 0x7F800000"
  proof
    assume "unat m = 0x7F800000"
    then have "valof m = PosInf" using s by (simp add: valof_cases bm)
    with v show False by simp
  qed
  with p(3) show lt: "unat m < 0x7F800000" by simp
  have "valof m = Finite (real (units_of_bits (unat m)) / 2 ^ 149)"
    using s lt by (simp add: valof_cases bm)
  with v show "l = real (units_of_bits (unat m)) / 2 ^ 149" by simp
qed

lemma normal_pattern:
  assumes v: "valof m = Finite l" and l: "1 / 2 ^ 125 \<le> l"
  shows "0x01000000 \<le> unat m"
proof -
  have l0: "0 < l" by (rule less_le_trans [OF _ l]) simp
  note p = positive_finite_pattern [OF v l0]
  have u: "units_of_bits 0x01000000 = 2 ^ 24" by (simp add: units_of_bits_def)
  have "(1 :: real) / 2 ^ 125 = 2 ^ 24 / 2 ^ 149" by simp
  with l p(3) have "(2 :: real) ^ 24 / 2 ^ 149 \<le> real (units_of_bits (unat m)) / 2 ^ 149"
    by simp
  then have "(2 :: real) ^ 24 \<le> real (units_of_bits (unat m))"
    by (simp only: divide_le_cancel) simp
  then have "real (units_of_bits 0x01000000) \<le> real (units_of_bits (unat m))"
    by (simp only: u of_nat_power of_nat_numeral)
  then have "units_of_bits 0x01000000 \<le> units_of_bits (unat m)"
    by (simp only: of_nat_le_iff)
  then show ?thesis by (simp only: units_of_bits_le_iff)
qed

lemma r_max_below_half:
  assumes h: "valof h = Finite (l / 2)" and l: "0 < l"
  shows "\<exists>r. valof (f_nextafter h f_zero) = Finite r \<and> 0 \<le> r \<and> r < l / 2
           \<and> (\<forall>z q. valof z = Finite q \<and> q < l / 2 \<longrightarrow> q \<le> r)
           \<and> (0 < r \<longrightarrow> 4 * pi / l < 2 * pi / r)"
proof -
  have z: "valof f_zero = Finite 0"
    by (simp add: valof_cases f_zero_def f_bits_def f_sign_def units_of_bits_def)
  have pos: "f_less f_zero h" using l by (simp add: f_less_def z h)
  note b = nextafter_largest_below [OF pos]
  let ?rm = "f_nextafter h f_zero"
  define r where "r = real (units_of_bits (unat ?rm)) / 2 ^ 149"
  have br: "f_bits ?rm = unat ?rm" using b(4) by (rule f_bits_positive)
  have v: "valof ?rm = Finite r"
    using b(4) b(5) by (simp add: valof_cases br r_def)
  have r0: "0 \<le> r" by (simp add: r_def)
  have lt: "r < l / 2"
    using b(2) by (simp add: f_less_def v h)
  have largest: "q \<le> r" if "valof z = Finite q" "q < l / 2" for z q
  proof -
    from that have "f_less z h" by (simp add: f_less_def h)
    then have "f_le z ?rm" by (rule b(3))
    with that(1) show ?thesis by (simp add: f_le_def v)
  qed
  have k: "4 * pi / l < 2 * pi / r" if r: "0 < r"
  proof -
    have "2 * pi / (l / 2) < 2 * pi / r"
      using r lt by (intro divide_strict_left_mono) simp_all
    then show ?thesis by simp
  qed
  from v r0 lt largest k show ?thesis by blast
qed

lemma r_max_ieee:
  assumes m: "valof m = Finite l" and l: "1 / 2 ^ 125 \<le> l"
  shows "valof (ieee_mul f_half m) = Finite (l / 2)"
    and "\<exists>r. valof (f_nextafter (ieee_mul f_half m) f_zero) = Finite r \<and> 0 < r \<and> r < l / 2
           \<and> (\<forall>z q. valof z = Finite q \<and> q < l / 2 \<longrightarrow> q \<le> r)
           \<and> 4 * pi / l < 2 * pi / r"
proof -
  have l0: "0 < l" by (rule less_le_trans [OF _ l]) simp
  note p = positive_finite_pattern [OF m l0]
  note n = normal_pattern [OF m l]
  show h: "valof (ieee_mul f_half m) = Finite (l / 2)"
    using ieee_mul_half_exact [OF p(1) n p(2)] by (simp only: p(3) [symmetric])
  from r_max_below_half [OF h l0] obtain r where
    r: "valof (f_nextafter (ieee_mul f_half m) f_zero) = Finite r" "r < l / 2"
      "\<forall>z q. valof z = Finite q \<and> q < l / 2 \<longrightarrow> q \<le> r"
      "0 < r \<longrightarrow> 4 * pi / l < 2 * pi / r"
    by blast
  have one: "valof 0x00000001 = Finite (1 / 2 ^ 149)"
    by (simp add: float32_eval)
  have "(1 :: real) / 2 ^ 149 < 1 / 2 ^ 125 / 2" by simp
  also have "\<dots> \<le> l / 2" using l by simp
  finally have "(1 :: real) / 2 ^ 149 < l / 2" .
  with one r(3) have "(1 :: real) / 2 ^ 149 \<le> r" by blast
  then have "0 < r" by (rule less_le_trans [rotated]) simp
  with r show "\<exists>r. valof (f_nextafter (ieee_mul f_half m) f_zero) = Finite r \<and> 0 < r \<and> r < l / 2
           \<and> (\<forall>z q. valof z = Finite q \<and> q < l / 2 \<longrightarrow> q \<le> r)
           \<and> 4 * pi / l < 2 * pi / r"
    by blast
qed

text \<open>
  Claim C3, amended. Let \<open>l\<close> be the smallest side length of the box: the smaller of \<open>Lx\<close>
  and \<open>Ly\<close> for a 2D box, the smallest of all three otherwise, and let \<open>h\<close> be the float
  product of \<^verbatim>\<open>float(0.5)\<close> and \<open>l\<close>. When \<open>h\<close> is positive, \<^verbatim>\<open>r_max\<close> is a float (not
  NaN) below \<open>h\<close>, and every float below \<open>h\<close> is at most \<^verbatim>\<open>r_max\<close>. When \<open>l\<close> is positive
  and finite and the product is exact, that is \<open>h = l/2\<close>, \<^verbatim>\<open>r_max\<close> is the largest float
  below half the side length, and \<open>2\<pi>/r_max\<close> is above \<open>4\<pi>/l\<close> (not half of it). With
  the IEEE multiplication the product is exact for every finite \<open>l\<close> of at least
  \<open>2\<^sup>-\<^sup>1\<^sup>2\<^sup>5\<close>, and \<^verbatim>\<open>r_max\<close> is positive then. After the call \<^verbatim>\<open>m_min_valid_k\<close> is the
  \<^verbatim>\<open>std::min\<close> of its old value and \<^verbatim>\<open>TWO_PI / r_max\<close>; after a sequence of calls it is
  the running minimum of these quotients, which, NaN apart, is a lower bound of them and of
  the start value and is one of them.
\<close>

theorem C3_accumulate:
  assumes L: "Box_getL (nq_getBox nq) = (Lx, Ly, Lz)"
    and nn: "\<not> f_isnan Lx" "\<not> f_isnan Ly" "\<not> f_isnan Lz"
  shows
    "(if Box_is2D (nq_getBox nq)
      then (min_box_length (nq_getBox nq) = Lx \<or> min_box_length (nq_getBox nq) = Ly)
           \<and> f_le (min_box_length (nq_getBox nq)) Lx \<and> f_le (min_box_length (nq_getBox nq)) Ly
      else (min_box_length (nq_getBox nq) = Lx \<or> min_box_length (nq_getBox nq) = Ly
              \<or> min_box_length (nq_getBox nq) = Lz)
           \<and> f_le (min_box_length (nq_getBox nq)) Lx \<and> f_le (min_box_length (nq_getBox nq)) Ly
           \<and> f_le (min_box_length (nq_getBox nq)) Lz)
   \<and> (f_less f_zero (fp_mul ops f_half (min_box_length (nq_getBox nq))) \<longrightarrow>
        \<not> f_isnan (accumulate_r_max ops (nq_getBox nq))
        \<and> f_less (accumulate_r_max ops (nq_getBox nq))
             (fp_mul ops f_half (min_box_length (nq_getBox nq)))
        \<and> (\<forall>z. f_less z (fp_mul ops f_half (min_box_length (nq_getBox nq))) \<longrightarrow>
               f_le z (accumulate_r_max ops (nq_getBox nq))))
   \<and> (\<forall>l. valof (min_box_length (nq_getBox nq)) = Finite l \<and> 0 < l
          \<and> valof (fp_mul ops f_half (min_box_length (nq_getBox nq))) = Finite (l / 2) \<longrightarrow>
          (\<exists>r. valof (accumulate_r_max ops (nq_getBox nq)) = Finite r \<and> 0 \<le> r \<and> r < l / 2
             \<and> (\<forall>z q. valof z = Finite q \<and> q < l / 2 \<longrightarrow> q \<le> r)
             \<and> (0 < r \<longrightarrow> 4 * pi / l < 2 * pi / r)))
   \<and> (\<forall>l. valof (min_box_length (nq_getBox nq)) = Finite l \<and> 1 / 2 ^ 125 \<le> l
          \<and> fp_mul ops = ieee_mul \<longrightarrow>
          valof (fp_mul ops f_half (min_box_length (nq_getBox nq))) = Finite (l / 2)
          \<and> (\<exists>r. valof (accumulate_r_max ops (nq_getBox nq)) = Finite r \<and> 0 < r \<and> r < l / 2
               \<and> (\<forall>z q. valof z = Finite q \<and> q < l / 2 \<longrightarrow> q \<le> r)
               \<and> 4 * pi / l < 2 * pi / r))
   \<and> m_min_valid_k
        (StaticStructureFactorDebye_accumulate ops frame_S_k nq query_points n_total self) =
      std_min (m_min_valid_k self) (fp_div ops TWO_PI (accumulate_r_max ops (nq_getBox nq)))
   \<and> m_min_valid_k (accumulate_frames ops frame_S_k frames self) =
      fold (\<lambda>k m. std_min m k)
        (map (\<lambda>(nq, query_points, n_total). frame_min_valid_k ops (nq_getBox nq)) frames)
        (m_min_valid_k self)
   \<and> ((\<forall>k \<in> set (map (\<lambda>(nq, query_points, n_total). frame_min_valid_k ops (nq_getBox nq)) frames).
          \<not> f_isnan k) \<and> \<not> f_isnan (m_min_valid_k self) \<longrightarrow>
        f_le (m_min_valid_k (accumulate_frames ops frame_S_k frames self)) (m_min_valid_k self)
        \<and> (\<forall>k \<in> set (map (\<lambda>(nq, query_points, n_total). frame_min_valid_k ops (nq_getBox nq)) frames).
              f_le (m_min_valid_k (accumulate_frames ops frame_S_k frames self)) k)
        \<and> (m_min_valid_k (accumulate_frames ops frame_S_k frames self) = m_min_valid_k self
            \<or> m_min_valid_k (accumulate_frames ops frame_S_k frames self) \<in>
                set (map (\<lambda>(nq, query_points, n_total). frame_min_valid_k ops (nq_getBox nq))
                       frames)))"
proof -
  let ?box = "nq_getBox nq"
  let ?h = "fp_mul ops f_half (min_box_length ?box)"
  have rm: "accumulate_r_max ops ?box = f_nextafter ?h f_zero"
    by (simp add: accumulate_r_max_def)
  have sides: "if Box_is2D ?box
      then (min_box_length ?box = Lx \<or> min_box_length ?box = Ly)
           \<and> f_le (min_box_length ?box) Lx \<and> f_le (min_box_length ?box) Ly
      else (min_box_length ?box = Lx \<or> min_box_length ?box = Ly \<or> min_box_length ?box = Lz)
           \<and> f_le (min_box_length ?box) Lx \<and> f_le (min_box_length ?box) Ly
           \<and> f_le (min_box_length ?box) Lz"
    using min_box_length_le [OF L nn] by (cases "Box_is2D ?box") simp_all
  have a1: "f_less f_zero ?h \<longrightarrow>
        \<not> f_isnan (accumulate_r_max ops ?box)
        \<and> f_less (accumulate_r_max ops ?box) ?h
        \<and> (\<forall>z. f_less z ?h \<longrightarrow> f_le z (accumulate_r_max ops ?box))"
    unfolding rm using nextafter_largest_below(1-3) [of ?h] by blast
  have a2: "\<forall>l. valof (min_box_length ?box) = Finite l \<and> 0 < l
          \<and> valof ?h = Finite (l / 2) \<longrightarrow>
          (\<exists>r. valof (accumulate_r_max ops ?box) = Finite r \<and> 0 \<le> r \<and> r < l / 2
             \<and> (\<forall>z q. valof z = Finite q \<and> q < l / 2 \<longrightarrow> q \<le> r)
             \<and> (0 < r \<longrightarrow> 4 * pi / l < 2 * pi / r))"
    unfolding rm using r_max_below_half [of ?h] by blast
  have a3: "\<forall>l. valof (min_box_length ?box) = Finite l \<and> 1 / 2 ^ 125 \<le> l
          \<and> fp_mul ops = ieee_mul \<longrightarrow>
          valof ?h = Finite (l / 2)
          \<and> (\<exists>r. valof (accumulate_r_max ops ?box) = Finite r \<and> 0 < r \<and> r < l / 2
               \<and> (\<forall>z q. valof z = Finite q \<and> q < l / 2 \<longrightarrow> q \<le> r)
               \<and> 4 * pi / l < 2 * pi / r)"
  proof (intro allI impI)
    fix l
    assume a: "valof (min_box_length ?box) = Finite l \<and> 1 / 2 ^ 125 \<le> l
          \<and> fp_mul ops = ieee_mul"
    then have e: "fp_mul ops = ieee_mul" by simp
    from a have m: "valof (min_box_length ?box) = Finite l" and l: "1 / 2 ^ 125 \<le> l"
      by simp_all
    show "valof ?h = Finite (l / 2)
          \<and> (\<exists>r. valof (accumulate_r_max ops ?box) = Finite r \<and> 0 < r \<and> r < l / 2
               \<and> (\<forall>z q. valof z = Finite q \<and> q < l / 2 \<longrightarrow> q \<le> r)
               \<and> 4 * pi / l < 2 * pi / r)"
      unfolding rm e using r_max_ieee [OF m l] by blast
  qed
  have one: "m_min_valid_k
        (StaticStructureFactorDebye_accumulate ops frame_S_k nq query_points n_total self) =
      std_min (m_min_valid_k self) (fp_div ops TWO_PI (accumulate_r_max ops ?box))"
    by (simp add: accumulate_min_valid_k frame_min_valid_k_def)
  let ?ks = "map (\<lambda>(nq, query_points, n_total). frame_min_valid_k ops (nq_getBox nq)) frames"
  note all = accumulate_frames_min_valid_k [of ops frame_S_k frames self]
  have least: "(\<forall>k \<in> set ?ks. \<not> f_isnan k) \<and> \<not> f_isnan (m_min_valid_k self) \<longrightarrow>
        f_le (m_min_valid_k (accumulate_frames ops frame_S_k frames self)) (m_min_valid_k self)
        \<and> (\<forall>k \<in> set ?ks. f_le (m_min_valid_k (accumulate_frames ops frame_S_k frames self)) k)
        \<and> (m_min_valid_k (accumulate_frames ops frame_S_k frames self) = m_min_valid_k self
            \<or> m_min_valid_k (accumulate_frames ops frame_S_k frames self) \<in> set ?ks)"
    unfolding all using running_min [of ?ks "m_min_valid_k self"] by blast
  show ?thesis
    by (intro conjI) (rule sides a1 a2 a3 one all least)+
qed

subsection \<open>accumulate in the unit cube\<close>

lemma unit_box_min: "min_box_length unit_box = 0x3F800000"
  by (simp add: min_box_length_def unit_box_def std_min_def)

lemma half_of_one: "fp_mul ieee_ops f_half 0x3F800000 = 0x3F000000"
  by (simp add: ieee_eval)

lemma unit_box_r_max: "accumulate_r_max ieee_ops unit_box = 0x3EFFFFFF"
  by (simp add: accumulate_r_max_def unit_box_min half_of_one f_nextafter_def float32_eval)

lemma two_pi_over_r_max: "fp_div ieee_ops 0x40C90FDB 0x3EFFFFFF = 0x41490FDC"
  by (simp add: ieee_eval)

lemma unit_box_k: "frame_min_valid_k ieee_ops unit_box = 0x41490FDC"
  by (simp only: frame_min_valid_k_def unit_box_r_max TWO_PI_def two_pi_over_r_max)

lemma demo_debye_k: "m_min_valid_k demo_debye = 0x7F800000"
  by (simp add: demo_debye_def StaticStructureFactorDebye_ctor_def
      StaticStructureFactorDebye.extend_def StaticStructureFactorDebye_members.fields_def
      float32_eval f_infinity_def Let_def)

text \<open>
  The claim as stated takes \<open>2\<pi>/r_max\<close> for half of \<open>4\<pi>/L\<close>. In the unit cube, with
  IEEE arithmetic, the quotient that \<^verbatim>\<open>accumulate\<close> tracks is the float
  \<open>3294199/262144\<close>, about 12.566, which is \<open>4\<pi>/L\<close> rounded; half of \<open>4\<pi>/L\<close> is about
  6.283.
\<close>

theorem C3_half_of_4pi_counterexample:
  "valof (min_box_length unit_box) = Finite 1
   \<and> frame_min_valid_k ieee_ops unit_box = 0x41490FDC
   \<and> valof 0x41490FDC = Finite (3294199 / 262144)
   \<and> (3294199 / 262144 :: real) \<noteq> 4 * pi / 1 / 2"
proof -
  have a: "valof (min_box_length unit_box) = Finite 1"
    by (simp add: unit_box_min float32_eval)
  have b: "valof 0x41490FDC = Finite (3294199 / 262144)"
    by (simp add: float32_eval)
  have "4 * pi / 1 / 2 < (8 :: real)" using pi_less_4 by linarith
  moreover have "(8 :: real) < 3294199 / 262144" by simp
  ultimately have c: "(3294199 / 262144 :: real) \<noteq> 4 * pi / 1 / 2" by linarith
  from a unit_box_k b c show ?thesis by blast
qed

text \<open>
  A side length too small for its half to be a float: in a cube whose side is 5 units of
  \<open>2\<^sup>-\<^sup>1\<^sup>4\<^sup>9\<close>, the product \<^verbatim>\<open>float(0.5) * min_box_length\<close> is rounded from 2.5 to 2 units,
  \<^verbatim>\<open>r_max\<close> is 1 unit, and the float of 2 units lies between \<^verbatim>\<open>r_max\<close> and half the
  side length.
\<close>

lemma r_max_subnormal_side:
  "accumulate_r_max ieee_ops \<lparr>Box_getL = (5, 5, 5), Box_is2D = False\<rparr> = 1
   \<and> valof 5 = Finite (5 / 2 ^ 149) \<and> valof 1 = Finite (1 / 2 ^ 149)
   \<and> valof 2 = Finite (2 / 2 ^ 149)
   \<and> (1 :: real) / 2 ^ 149 < 2 / 2 ^ 149 \<and> (2 :: real) / 2 ^ 149 < 5 / 2 ^ 149 / 2"
proof -
  have m: "min_box_length \<lparr>Box_getL = (5, 5, 5), Box_is2D = False\<rparr> = 5"
    by (simp add: min_box_length_def std_min_def)
  have h: "fp_mul ieee_ops f_half 5 = 2"
    by (simp add: ieee_eval)
  have r: "accumulate_r_max ieee_ops \<lparr>Box_getL = (5, 5, 5), Box_is2D = False\<rparr> = 1"
    by (simp add: accumulate_r_max_def m h f_nextafter_def float32_eval)
  have v: "valof 5 = Finite (5 / 2 ^ 149)" "valof 1 = Finite (1 / 2 ^ 149)"
    "valof 2 = Finite (2 / 2 ^ 149)"
    by (simp_all add: float32_eval)
  have "(1 :: real) / 2 ^ 149 < 2 / 2 ^ 149" "(2 :: real) / 2 ^ 149 < 5 / 2 ^ 149 / 2"
    by simp_all
  with r v show ?thesis by blast
qed

lemma std_min_unit:
  "std_min 0x7F800000 0x41490FDC = 0x41490FDC"
  "std_min 0x41490FDC 0x41490FDC = 0x41490FDC"
  by (simp_all add: std_min_def float32_eval)

theorem C3_accumulate_witness:
  "accumulate_r_max ieee_ops (nq_getBox unit_query) = 0x3EFFFFFF
   \<and> f_less 0x3EFFFFFF (fp_mul ieee_ops f_half 0x3F800000)
   \<and> valof (fp_mul ieee_ops f_half 0x3F800000) = Finite (1 / 2)
   \<and> m_min_valid_k
        (StaticStructureFactorDebye_accumulate ieee_ops (\<lambda>axis box points query_points n. [0, 0])
           unit_query [(0, 0, 0)] 1 demo_debye) = 0x41490FDC
   \<and> m_min_valid_k
        (accumulate_frames ieee_ops (\<lambda>axis box points query_points n. [0, 0])
           [(unit_query, [(0, 0, 0)], 1), (unit_query, [(0, 0, 0)], 1)] demo_debye) = 0x41490FDC"
proof -
  have box: "nq_getBox unit_query = unit_box" by (simp add: unit_query_def)
  have L: "Box_getL (nq_getBox unit_query) = (0x3F800000, 0x3F800000, 0x3F800000)"
    by (simp add: box unit_box_def)
  have nn: "\<not> f_isnan 0x3F800000" by (simp add: float32_eval)
  have pos: "f_less f_zero (fp_mul ieee_ops f_half (min_box_length (nq_getBox unit_query)))"
    by (simp add: box unit_box_min half_of_one) (simp add: float32_eval)
  have side: "valof (min_box_length (nq_getBox unit_query)) = Finite 1"
    by (simp add: box unit_box_min float32_eval)
  have ieee: "fp_mul ieee_ops = ieee_mul" by (simp add: ieee_ops_def)
  note t = C3_accumulate [where nq = unit_query and ops = ieee_ops
      and frame_S_k = "\<lambda>axis box points query_points n. [0, 0]"
      and query_points = "[(0, 0, 0)]" and n_total = 1 and self = demo_debye
      and frames = "[(unit_query, [(0, 0, 0)], 1), (unit_query, [(0, 0, 0)], 1)]",
      OF L nn nn nn]
  note below = t [THEN conjunct2, THEN conjunct1, rule_format, OF pos, THEN conjunct2,
      THEN conjunct1]
  note exact = t [THEN conjunct2, THEN conjunct2, THEN conjunct2, THEN conjunct1, rule_format,
      of 1, THEN conjunct1]
  note one = t [THEN conjunct2, THEN conjunct2, THEN conjunct2, THEN conjunct2, THEN conjunct1]
  note two = t [THEN conjunct2, THEN conjunct2, THEN conjunct2, THEN conjunct2, THEN conjunct2,
      THEN conjunct1]
  have r: "accumulate_r_max ieee_ops (nq_getBox unit_query) = 0x3EFFFFFF"
    by (simp only: box unit_box_r_max)
  have k: "fp_div ieee_ops TWO_PI 0x3EFFFFFF = 0x41490FDC"
    by (simp only: TWO_PI_def two_pi_over_r_max)
  from below have w2: "f_less 0x3EFFFFFF (fp_mul ieee_ops f_half 0x3F800000)"
    by (simp only: box unit_box_r_max unit_box_min)
  have "valof (fp_mul ieee_ops f_half (min_box_length (nq_getBox unit_query))) = Finite (1 / 2)"
    using exact side ieee by simp
  then have w5: "valof (fp_mul ieee_ops f_half 0x3F800000) = Finite (1 / 2)"
    by (simp only: box unit_box_min)
  from one have w3: "m_min_valid_k
        (StaticStructureFactorDebye_accumulate ieee_ops (\<lambda>axis box points query_points n. [0, 0])
           unit_query [(0, 0, 0)] 1 demo_debye) = 0x41490FDC"
    by (simp only: r k demo_debye_k std_min_unit)
  from two have w4: "m_min_valid_k
        (accumulate_frames ieee_ops (\<lambda>axis box points query_points n. [0, 0])
           [(unit_query, [(0, 0, 0)], 1), (unit_query, [(0, 0, 0)], 1)] demo_debye) = 0x41490FDC"
    by (simp only: list.map prod.case fold_simps box unit_box_k demo_debye_k std_min_unit)
  from r w2 w5 w3 w4 show ?thesis by blast
qed

subsection \<open>GaussianDensity: no accumulation across calls\<close>

lemma compute_overwrites:
  "GaussianDensity_compute wrap nq (self\<lparr>gd_box := b\<rparr>) = GaussianDensity_compute wrap nq self"
  "GaussianDensity_compute wrap nq (self\<lparr>gd_density_array := a\<rparr>) =
     GaussianDensity_compute wrap nq self"
  by (simp_all add: GaussianDensity_compute_def Let_def
      cong: prod.case_cong option.case_cong)

lemma compute_keeps:
  assumes "GaussianDensity_compute wrap nq self = Some self'"
  shows "self' = self\<lparr>gd_box := gd_box self', gd_density_array := gd_density_array self'\<rparr>"
    and "gd_box self' = dq_getBox nq"
  using assms
  by (auto simp: GaussianDensity_compute_def Let_def split: prod.splits option.splits)

lemma compute_inputs:
  assumes "gd_width s1 = gd_width s2" "gd_r_max s1 = gd_r_max s2" "gd_sigma s1 = gd_sigma s2"
  shows "GaussianDensity_compute wrap nq s1 = GaussianDensity_compute wrap nq s2"
proof -
  have "s1 = s2\<lparr>gd_box := gd_box s1, gd_density_array := gd_density_array s1\<rparr>"
    using assms by simp
  then have "GaussianDensity_compute wrap nq s1 =
      GaussianDensity_compute wrap nq (s2\<lparr>gd_box := gd_box s1, gd_density_array := gd_density_array s1\<rparr>)"
    by simp
  then show ?thesis by (simp only: compute_overwrites)
qed

lemma reduce_zero: "reduceInto (prepare w) (prepare w) = prepare w"
  by (cases w) (simp add: reduceInto_def prepare_def map2_map_map zip_replicate
      map_replicate_const)

text \<open>
  Claim C9. \<^verbatim>\<open>compute\<close> stores the box and prepares the output array before it reads
  either, so a call that returns leaves a state from which the same call returns the same
  state again; any object with the same width, \<^verbatim>\<open>r_max\<close> and \<^verbatim>\<open>sigma\<close> ends in that
  state, whatever its box and density array were; a later call gives what it would have
  given without the earlier one; and without points the density array is the prepared
  array of zeros.
\<close>

theorem C9_compute_no_accumulation:
  assumes run: "GaussianDensity_compute wrap nq self = Some self'"
  shows "GaussianDensity_compute wrap nq self' = Some self'
     \<and> (\<forall>other. gd_width other = gd_width self \<and> gd_r_max other = gd_r_max self
            \<and> gd_sigma other = gd_sigma self \<longrightarrow>
          GaussianDensity_compute wrap nq other = Some self')
     \<and> (\<forall>nq'. GaussianDensity_compute wrap nq' self' = GaussianDensity_compute wrap nq' self)
     \<and> (dq_points nq = [] \<longrightarrow>
          gd_density_array self' =
            (case gd_width self of (wx, wy, wz) \<Rightarrow>
               prepare (unat wx, unat wy, if dbox_is2D (dq_getBox nq) then 1 else unat wz)))"
proof -
  note k = compute_keeps [OF run]
  have same: "gd_width self' = gd_width self" "gd_r_max self' = gd_r_max self"
      "gd_sigma self' = gd_sigma self"
    by (subst k(1), simp)+
  have again: "GaussianDensity_compute wrap nq self' = Some self'"
    using compute_inputs [OF same, of wrap nq] run by simp
  have others: "\<forall>other. gd_width other = gd_width self \<and> gd_r_max other = gd_r_max self
            \<and> gd_sigma other = gd_sigma self \<longrightarrow>
          GaussianDensity_compute wrap nq other = Some self'"
    using compute_inputs [of _ self wrap nq] run by simp
  have next_call: "\<forall>nq'. GaussianDensity_compute wrap nq' self' =
      GaussianDensity_compute wrap nq' self"
    using compute_inputs [OF same, of wrap] by simp
  have empty: "dq_points nq = [] \<longrightarrow>
          gd_density_array self' =
            (case gd_width self of (wx, wy, wz) \<Rightarrow>
               prepare (unat wx, unat wy, if dbox_is2D (dq_getBox nq) then 1 else unat wz))"
    using run
    by (auto simp: GaussianDensity_compute_def Let_def reduce_zero
        split: prod.splits option.splits)
  from again others next_call empty show ?thesis by blast
qed

lemma demo_density_fields:
  "demo_density =
     \<lparr>gd_box = \<lparr>dbox_Lx = 0, dbox_Ly = 0, dbox_Lz = 0, dbox_periodic = (True, True, True),
                dbox_is2D = False\<rparr>,
      gd_width = (2, 2, 2), gd_r_max = 1, gd_sigma = 1,
      gd_density_array = \<lparr>arr_shape = (0, 0, 0), arr_data = []\<rparr>\<rparr>"
  by (simp add: demo_density_def GaussianDensity_ctor_def)

lemma demo_density_run:
  "GaussianDensity_compute (\<lambda>box v. v) demo_density_query demo_density =
     Some \<lparr>gd_box = demo_density_box, gd_width = (2, 2, 2), gd_r_max = 1, gd_sigma = 1,
           gd_density_array =
             \<lparr>arr_shape = (2, 2, 2),
              arr_data = [sqrt (1 / (2 * pi)), 0, 0, 0, 0, 0, 0, 0]\<rparr>\<rparr>"
proof -
  have r8: "replicate 8 (0 :: real) = [0, 0, 0, 0, 0, 0, 0, 0]"
    by (simp add: numeral_eq_Suc)
  show ?thesis
    by (simp add: demo_density_fields GaussianDensity_compute_def Let_def demo_density_query_def
        demo_density_box_def prepare_def density_setup_def float_div_def int_of_float_def
        in_int_range_def py_int_def deposit_point_def point_bin_def axis_bins_def
        deposit_bin_def fold_index_def add_at_def reduceInto_def r8 real_sqrt_divide)
qed

theorem C9_compute_no_accumulation_witness:
  "GaussianDensity_compute (\<lambda>box v. v) demo_density_query
     \<lparr>gd_box = demo_density_box, gd_width = (2, 2, 2), gd_r_max = 1, gd_sigma = 1,
      gd_density_array =
        \<lparr>arr_shape = (2, 2, 2), arr_data = [sqrt (1 / (2 * pi)), 0, 0, 0, 0, 0, 0, 0]\<rparr>\<rparr> =
   Some \<lparr>gd_box = demo_density_box, gd_width = (2, 2, 2), gd_r_max = 1, gd_sigma = 1,
         gd_density_array =
           \<lparr>arr_shape = (2, 2, 2), arr_data = [sqrt (1 / (2 * pi)), 0, 0, 0, 0, 0, 0, 0]\<rparr>\<rparr>"
  using C9_compute_no_accumulation [OF demo_density_run] by blast

end
